theory Spec2Isabelle
  imports Complex_Main
begin

section \<open>The alert handler of \<open>src/utils/langsmith_monitor.py\<close>\<close>

text \<open>
  The module holds one class, \<open>LangSmithAlertHandler\<close>, bound to four lifecycle
  callbacks. Its methods are embedded below in the order of the source. The handler's
  mutable field \<open>_start_times\<close> and everything the handler does to the outside
  (log calls, HTTP requests, SMTP sessions) are threaded through an explicit state; an
  exception is a value, returned next to the state reached when it was raised. Isabelle
  names cannot start with an underscore, so \<open>_alert\<close> is \<open>alert\<close> and so on.
\<close>

subsection \<open>Floats\<close>

text \<open>
  A Python \<open>float\<close> is an IEEE binary64 value: a finite number (\<open>Float x\<close>, with \<open>x\<close>
  its exact value, \<open>Float 0\<close> the positive zero), the negative zero, an infinity or
  \<open>nan\<close>.
\<close>

datatype pyfloat = Float real | NegZero | PosInf | NegInf | NaN

text \<open>\<open>a >= b\<close> on floats: false when either side is \<open>nan\<close>; the two zeros are equal.\<close>

fun float_ge :: "pyfloat \<Rightarrow> pyfloat \<Rightarrow> bool" where
  "float_ge NaN b = False"
| "float_ge a NaN = False"
| "float_ge PosInf b = True"
| "float_ge a NegInf = True"
| "float_ge NegInf b = False"
| "float_ge a PosInf = False"
| "float_ge (Float x) (Float y) = (y \<le> x)"
| "float_ge (Float x) NegZero = (0 \<le> x)"
| "float_ge NegZero (Float y) = (y \<le> 0)"
| "float_ge NegZero NegZero = True"

text \<open>\<open>bool(x)\<close> of a float is \<open>x != 0.0\<close>, true of \<open>nan\<close>.\<close>

fun float_truthy :: "pyfloat \<Rightarrow> bool" where
  "float_truthy (Float x) = (x \<noteq> 0)"
| "float_truthy NegZero = False"
| "float_truthy _ = True"

text \<open>
  Rounding a real number to binary64, to nearest with ties to even: 53 significant bits,
  the exponent of the leading bit not below \<open>-1022\<close> (below that the spacing stays
  \<open>2^-1074\<close>), and an infinity when the rounded value reaches \<open>2^1024\<close>, that is
  when the exponent is above 1023 or is 1023 and the 53 bits round up to \<open>2^53\<close>.
  \<open>bits n\<close> is the length of \<open>n\<close> in binary, \<open>float_exponent m\<close> the exponent of the
  leading bit of \<open>m > 0\<close>.
\<close>

definition round_half_even :: "real \<Rightarrow> int" where
  "round_half_even x =
     (let f = \<lfloor>x\<rfloor>; d = x - of_int f
      in if d < 1 / 2 then f else if 1 / 2 < d then f + 1 else if even f then f else f + 1)"

fun bits :: "nat \<Rightarrow> nat" where
  "bits n = (if n = 0 then 0 else Suc (bits (n div 2)))"

declare bits.simps [simp del]

definition pow2 :: "int \<Rightarrow> real" where
  "pow2 e = (if 0 \<le> e then 2 ^ nat e else 1 / 2 ^ nat (- e))"

definition float_exponent :: "real \<Rightarrow> int" where
  "float_exponent m =
     (if 1 \<le> m then int (bits (nat \<lfloor>m\<rfloor>)) - 1
      else - int (bits (nat \<lceil>1 / m\<rceil> - 1)))"

definition round_double :: "real \<Rightarrow> pyfloat" where
  "round_double x =
     (if x = 0 then Float 0
      else
        (let m = \<bar>x\<bar>;
             e = max (float_exponent m) (- 1022);
             q = pow2 (e - 52);
             k = round_half_even (m / q);
             r = of_int k * q
         in if 1023 < e \<or> (e = 1023 \<and> 2 ^ 53 \<le> k) then (if x < 0 then NegInf else PosInf)
            else if k = 0 then (if x < 0 then NegZero else Float 0)
            else Float (if x < 0 then - r else r)))"

text \<open>
  \<open>a - b\<close> for two finite floats given by their exact values: the exact difference,
  rounded.
\<close>

definition float_sub :: "real \<Rightarrow> real \<Rightarrow> pyfloat" where
  "float_sub a b = round_double (a - b)"

subsection \<open>Python values\<close>

text \<open>
  The response handed to \<open>on_llm_end\<close> is typed \<open>Any\<close> and only inspected through
  \<open>getattr\<close>, \<open>isinstance\<close>, \<open>dict.get\<close>, truth tests and \<open>for\<close>. \<open>PObj\<close> is an
  object with the listed attributes, \<open>PDict\<close> a dict with string keys (the first pair of
  a key is the entry), \<open>PList\<close> a list or tuple.
\<close>

datatype pyval =
    PNone
  | PBool bool
  | PInt int
  | PFloat pyfloat
  | PStr string
  | PList "pyval list"
  | PDict "(string \<times> pyval) list"
  | PObj "(string \<times> pyval) list"

text \<open>The values \<open>v\<close> with \<open>isinstance(v, int)\<close>: \<open>bool\<close> is a subclass of \<open>int\<close>.\<close>

datatype pyint = IntV int | BoolV bool

datatype exn =
    KeyError string
  | TypeError string
  | ValueError string
  | OSError string
  | RequestException string
  | SMTPException string

fun int_val :: "pyint \<Rightarrow> int" where
  "int_val (IntV n) = n"
| "int_val (BoolV b) = (if b then 1 else 0)"

text \<open>\<open>isinstance(v, int)\<close>, with the value when it holds.\<close>

fun as_int :: "pyval \<Rightarrow> pyint option" where
  "as_int (PInt n) = Some (IntV n)"
| "as_int (PBool b) = Some (BoolV b)"
| "as_int _ = None"

fun truthy :: "pyval \<Rightarrow> bool" where
  "truthy PNone = False"
| "truthy (PBool b) = b"
| "truthy (PInt n) = (n \<noteq> 0)"
| "truthy (PFloat x) = float_truthy x"
| "truthy (PStr s) = (s \<noteq> [])"
| "truthy (PList xs) = (xs \<noteq> [])"
| "truthy (PDict kvs) = (kvs \<noteq> [])"
| "truthy (PObj attrs) = True"

text \<open>\<open>a or b\<close>.\<close>

definition py_or :: "pyval \<Rightarrow> pyval \<Rightarrow> pyval" where
  "py_or a b = (if truthy a then a else b)"

text \<open>\<open>getattr(v, name, None)\<close>: only objects carry the attributes asked for.\<close>

fun py_getattr :: "pyval \<Rightarrow> string \<Rightarrow> pyval" where
  "py_getattr (PObj attrs) name = (case map_of attrs name of Some v \<Rightarrow> v | None \<Rightarrow> PNone)"
| "py_getattr _ name = PNone"

text \<open>\<open>d.get(key)\<close>.\<close>

definition dict_get :: "(string \<times> pyval) list \<Rightarrow> string \<Rightarrow> pyval" where
  "dict_get d key = (case map_of d key of Some v \<Rightarrow> v | None \<Rightarrow> PNone)"

text \<open>
  What a \<open>for\<close> statement iterates over: the elements of a list, the keys of a dict, the
  characters of a string; \<open>TypeError\<close> for a value that is not iterable.
\<close>

fun py_iter :: "pyval \<Rightarrow> exn + pyval list" where
  "py_iter (PList xs) = Inr xs"
| "py_iter (PDict kvs) = Inr (map (\<lambda>kv. PStr (fst kv)) kvs)"
| "py_iter (PStr s) = Inr (map (\<lambda>c. PStr [c]) s)"
| "py_iter _ = Inl (TypeError ''object is not iterable'')"

subsection \<open>Decimal text of numbers\<close>

definition digit_char :: "nat \<Rightarrow> char" where
  "digit_char n = ''0123456789'' ! (n mod 10)"

fun str_nat :: "nat \<Rightarrow> string" where
  "str_nat n = (if n < 10 then [digit_char n] else str_nat (n div 10) @ [digit_char n])"

declare str_nat.simps [simp del]

text \<open>\<open>str(n)\<close> of an \<open>int\<close>.\<close>

definition str_int :: "int \<Rightarrow> string" where
  "str_int i = (if i < 0 then ''-'' @ str_nat (nat (- i)) else str_nat (nat i))"

text \<open>\<open>f"{t}"\<close> of a value with \<open>isinstance(t, int)\<close>.\<close>

fun str_pyint :: "pyint \<Rightarrow> string" where
  "str_pyint (IntV n) = str_int n"
| "str_pyint (BoolV b) = (if b then ''True'' else ''False'')"

text \<open>
  \<open>f"{x:.2f}"\<close>: for a finite float the nearest decimal with two fractional digits of
  its exact value, a tie going to the even neighbour, and the sign kept also when the
  digits are all zero; \<open>inf\<close>, \<open>-inf\<close> and \<open>nan\<close> otherwise.
\<close>

fun fmt2f :: "pyfloat \<Rightarrow> string" where
  "fmt2f (Float x) =
     (let n = nat (round_half_even (\<bar>x\<bar> * 100))
      in (if x < 0 then ''-'' else []) @ str_nat (n div 100) @ ''.'' @
         [digit_char (n mod 100 div 10), digit_char (n mod 10)])"
| "fmt2f NegZero = ''-0.00''"
| "fmt2f PosInf = ''inf''"
| "fmt2f NegInf = ''-inf''"
| "fmt2f NaN = ''nan''"

subsection \<open>Configuration, effects and state\<close>

record AlertConfig =
  latency_seconds :: pyfloat
  token_threshold :: int
  notify_mode :: string
  webhook_url :: string
  webhook_timeout_seconds :: pyfloat
  smtp_host :: string
  smtp_port :: int
  smtp_username :: string
  smtp_password :: string
  smtp_from :: string
  smtp_to :: string
  smtp_use_tls :: bool

text \<open>The \<open>EmailMessage\<close> built by \<open>_send_email\<close>.\<close>

record email =
  mail_subject :: string
  mail_from :: string
  mail_to :: string
  mail_content :: string

text \<open>
  What the handler does to the outside, in the order it does it. \<open>Log_warning fmt args\<close>
  is \<open>logger.warning(fmt, *args)\<close>; \<open>Http_post url json timeout\<close> is the call of
  \<open>requests.post\<close>; the SMTP effects are the calls on \<open>smtplib.SMTP\<close>, \<open>Smtp_quit\<close> being
  the release at the end of the \<open>with\<close> block.
\<close>

datatype effect =
    Log_warning string "string list"
  | Http_post string "(string \<times> string) list" pyfloat
  | Smtp_connect string int
  | Smtp_starttls
  | Smtp_login string string
  | Smtp_send_message email
  | Smtp_quit

text \<open>The response of the HTTP client, as far as \<open>raise_for_status\<close> reads it.\<close>

record http_response =
  status_code :: nat
  reason_phrase :: string
  response_url :: string

text \<open>
  The outbound transports are not part of the module: what the servers answer is a
  parameter, and each answer may depend on everything done before (the trace).
  \<open>http_post\<close> is \<open>requests.post\<close>: it returns a response, or \<open>Inl e\<close> when it raises
  \<open>e\<close>, a \<open>RequestException\<close> for a failure of the transport, another exception for
  arguments the client refuses (a \<open>ValueError\<close> for a timeout that is not positive). An
  SMTP call returns \<open>Some e\<close> when it raises \<open>e\<close>; \<open>smtp_quit\<close> is the release of the
  connection at the end of the \<open>with\<close> block.
\<close>

record world =
  http_post :: "effect list \<Rightarrow> string \<Rightarrow> (string \<times> string) list \<Rightarrow> pyfloat \<Rightarrow> exn + http_response"
  smtp_connect :: "effect list \<Rightarrow> string \<Rightarrow> int \<Rightarrow> exn option"
  smtp_starttls :: "effect list \<Rightarrow> exn option"
  smtp_login :: "effect list \<Rightarrow> string \<Rightarrow> string \<Rightarrow> exn option"
  smtp_send_message :: "effect list \<Rightarrow> email \<Rightarrow> exn option"
  smtp_quit :: "effect list \<Rightarrow> exn option"

text \<open>
  \<open>Response.raise_for_status\<close> of the HTTP client: an \<open>HTTPError\<close>, which is a
  \<open>RequestException\<close>, for a status from 400 to 599 and nothing for any other status.
\<close>

definition raise_for_status :: "http_response \<Rightarrow> exn option" where
  "raise_for_status r =
     (if 400 \<le> status_code r \<and> status_code r < 500
      then Some (RequestException (str_nat (status_code r) @ '' Client Error: '' @
                   reason_phrase r @ '' for url: '' @ response_url r))
      else if 500 \<le> status_code r \<and> status_code r < 600
      then Some (RequestException (str_nat (status_code r) @ '' Server Error: '' @
                   reason_phrase r @ '' for url: '' @ response_url r))
      else None)"

text \<open>
  Assigning a header of an \<open>EmailMessage\<close> raises \<open>ValueError\<close> for a value of more
  than one line (\<open>len(value.splitlines()) > 1\<close>): a line boundary that is not at the
  end of the value.
\<close>

definition is_line_boundary :: "char \<Rightarrow> bool" where
  "is_line_boundary c =
     (c \<in> set [CHR 0x0A, CHR 0x0D, CHR 0x0B, CHR 0x0C, CHR 0x1C, CHR 0x1D, CHR 0x1E, CHR 0x85])"

fun splits_lines :: "string \<Rightarrow> bool" where
  "splits_lines [] = False"
| "splits_lines (c # cs) =
     (if is_line_boundary c
      then (case cs of
              [] \<Rightarrow> False
            | d # ds \<Rightarrow> (if c = CHR 0x0D \<and> d = CHR 0x0A then ds \<noteq> [] else True))
      else splits_lines cs)"

definition set_header :: "string \<Rightarrow> exn option" where
  "set_header v =
     (if splits_lines v
      then Some (ValueError ''Header values may not contain linefeed or carriage return characters'')
      else None)"

text \<open>
  \<open>self._start_times\<close> and the trace of effects so far. A reading of the clock is a
  finite float, held as its exact value.
\<close>

record state =
  start_times :: "string \<rightharpoonup> real"
  trace :: "effect list"

definition emit :: "effect \<Rightarrow> state \<Rightarrow> state" where
  "emit e st = st\<lparr>trace := trace st @ [e]\<rparr>"

definition log_warning :: "string \<Rightarrow> string list \<Rightarrow> state \<Rightarrow> state" where
  "log_warning fmt args st = emit (Log_warning fmt args) st"

text \<open>
  The \<open>run_id\<close> keyword argument: the event source passes a UUID; \<open>None\<close>, booleans,
  integers and strings stand for what else a caller can pass. The argument itself may be
  missing (\<open>None\<close> of the option type).
\<close>

datatype run_id = IdNone | IdBool bool | IdInt int | IdStr string | IdUuid string

fun id_truthy :: "run_id \<Rightarrow> bool" where
  "id_truthy IdNone = False"
| "id_truthy (IdBool b) = b"
| "id_truthy (IdInt n) = (n \<noteq> 0)"
| "id_truthy (IdStr s) = (s \<noteq> [])"
| "id_truthy (IdUuid u) = True"

fun id_str :: "run_id \<Rightarrow> string" where
  "id_str IdNone = ''None''"
| "id_str (IdBool b) = (if b then ''True'' else ''False'')"
| "id_str (IdInt n) = str_int n"
| "id_str (IdStr s) = s"
| "id_str (IdUuid u) = u"

subsection \<open>The handler\<close>

text \<open>\<open>on_llm_start\<close>; \<open>now\<close> is the reading \<open>time.perf_counter()\<close> gives in this call.\<close>

definition on_llm_start :: "real \<Rightarrow> run_id option \<Rightarrow> state \<Rightarrow> exn option \<times> state" where
  "on_llm_start now kw st =
     (let run_id = (case kw of None \<Rightarrow> IdNone | Some v \<Rightarrow> v)
      in if id_truthy run_id
         then (None, st\<lparr>start_times := (start_times st)(id_str run_id \<mapsto> now)\<rparr>)
         else (None, st))"

text \<open>\<open>dict.pop(key)\<close> raises \<open>KeyError\<close> for a missing key.\<close>

definition dict_pop :: "(string \<rightharpoonup> real) \<Rightarrow> string \<Rightarrow> exn + real \<times> (string \<rightharpoonup> real)" where
  "dict_pop m key = (case m key of None \<Rightarrow> Inl (KeyError key) | Some v \<Rightarrow> Inr (v, m(key := None)))"

definition pop_duration :: "real \<Rightarrow> string \<Rightarrow> state \<Rightarrow> (exn + pyfloat option) \<times> state" where
  "pop_duration now run_id st =
     (if start_times st run_id \<noteq> None
      then (case dict_pop (start_times st) run_id of
              Inl e \<Rightarrow> (Inl e, st)
            | Inr (started, m) \<Rightarrow> (Inr (Some (float_sub now started)), st\<lparr>start_times := m\<rparr>))
      else (Inr None, st))"

text \<open>The body of the inner loop of \<open>_extract_total_tokens\<close>, for one generation.\<close>

definition generation_total :: "pyval \<Rightarrow> pyint option" where
  "generation_total generation =
     (let message = py_getattr generation ''message'';
          usage_metadata = py_getattr message ''usage_metadata''
      in case usage_metadata of
           PDict u \<Rightarrow> as_int (dict_get u ''total_tokens'')
         | _ \<Rightarrow> None)"

text \<open>The inner loop: the first generation of the group with an integer total returns.\<close>

fun scan_group :: "pyval list \<Rightarrow> pyint option" where
  "scan_group [] = None"
| "scan_group (generation # rest) =
     (case generation_total generation of
        Some tot \<Rightarrow> Some tot
      | None \<Rightarrow> scan_group rest)"

text \<open>The outer loop; a group that is not iterable raises when the loop reaches it.\<close>

fun scan_groups :: "pyval list \<Rightarrow> exn + pyint option" where
  "scan_groups [] = Inr None"
| "scan_groups (generation_group # rest) =
     (case py_iter generation_group of
        Inl e \<Rightarrow> Inl e
      | Inr generations \<Rightarrow>
          (case scan_group generations of
             Some tot \<Rightarrow> Inr (Some tot)
           | None \<Rightarrow> scan_groups rest))"

definition extract_total_tokens :: "pyval \<Rightarrow> exn + pyint option" where
  "extract_total_tokens response =
     (let llm_output = py_or (py_getattr response ''llm_output'') (PDict []);
          found =
            (case llm_output of
               PDict d \<Rightarrow>
                 (let usage = py_or (py_or (dict_get d ''token_usage'') (dict_get d ''usage''))
                                (PDict []);
                      tot = (case usage of PDict u \<Rightarrow> dict_get u ''total_tokens'' | _ \<Rightarrow> PNone)
                  in as_int tot)
             | _ \<Rightarrow> None)
      in case found of
           Some tot \<Rightarrow> Inr (Some tot)
         | None \<Rightarrow>
             (let generations = py_or (py_getattr response ''generations'') (PList [])
              in case py_iter generations of
                   Inl e \<Rightarrow> Inl e
                 | Inr groups \<Rightarrow> scan_groups groups))"

text \<open>\<open>sep.join(lines)\<close>.\<close>

fun join :: "string \<Rightarrow> string list \<Rightarrow> string" where
  "join sep [] = []"
| "join sep [l] = l"
| "join sep (l # ls) = l @ sep @ join sep ls"

record payload =
  title :: string
  body :: string

definition build_payload :: "string \<Rightarrow> pyfloat option \<Rightarrow> pyint option \<Rightarrow> payload" where
  "build_payload reason duration total_tokens =
     (let lines0 = [''Reason: '' @ reason];
          lines1 = (case duration of
                      Some d \<Rightarrow> lines0 @ [''Latency: '' @ fmt2f d @ ''s'']
                    | None \<Rightarrow> lines0);
          lines2 = (case total_tokens of
                      Some t \<Rightarrow> lines1 @ [''Total tokens: '' @ str_pyint t]
                    | None \<Rightarrow> lines1)
      in \<lparr>title = ''LangSmith alert: '' @ reason, body = join [CHR 0x0A] lines2\<rparr>)"

definition smtp_configured :: "AlertConfig \<Rightarrow> state \<Rightarrow> bool \<times> state" where
  "smtp_configured cfg st =
     (let required = [smtp_host cfg, smtp_from cfg, smtp_to cfg]
      in if \<not> list_all (\<lambda>s. s \<noteq> []) required
         then (False, log_warning ''SMTP not configured; skipping email alert.'' [] st)
         else (True, st))"

text \<open>The body of the \<open>with\<close> block of \<open>_send_email\<close>: the first call that raises ends it.\<close>

definition smtp_session :: "AlertConfig \<Rightarrow> world \<Rightarrow> email \<Rightarrow> state \<Rightarrow> exn option \<times> state" where
  "smtp_session cfg w message st =
     (case (if smtp_use_tls cfg
            then (smtp_starttls w (trace st), emit Smtp_starttls st)
            else (None, st)) of
        (Some e, st1) \<Rightarrow> (Some e, st1)
      | (None, st1) \<Rightarrow>
          (case (if smtp_username cfg \<noteq> [] \<and> smtp_password cfg \<noteq> []
                 then (smtp_login w (trace st1) (smtp_username cfg) (smtp_password cfg),
                       emit (Smtp_login (smtp_username cfg) (smtp_password cfg)) st1)
                 else (None, st1)) of
             (Some e, st2) \<Rightarrow> (Some e, st2)
           | (None, st2) \<Rightarrow>
               (smtp_send_message w (trace st2) message, emit (Smtp_send_message message) st2)))"

text \<open>
  \<open>_send_email\<close> has no \<open>try\<close>: an exception of a header assignment, of the
  connection or of the session leaves the method. The \<open>with\<close> block releases the
  connection on both exits; an exception of the release is the one that leaves.
\<close>

definition send_email :: "AlertConfig \<Rightarrow> world \<Rightarrow> string \<Rightarrow> string \<Rightarrow> state \<Rightarrow> exn option \<times> state" where
  "send_email cfg w subject content st =
     (case set_header subject of
        Some e \<Rightarrow> (Some e, st)
      | None \<Rightarrow>
     (case set_header (smtp_from cfg) of
        Some e \<Rightarrow> (Some e, st)
      | None \<Rightarrow>
     (case set_header (smtp_to cfg) of
        Some e \<Rightarrow> (Some e, st)
      | None \<Rightarrow>
          (let message = \<lparr>mail_subject = subject, mail_from = smtp_from cfg,
                          mail_to = smtp_to cfg, mail_content = content\<rparr>;
               st1 = emit (Smtp_connect (smtp_host cfg) (smtp_port cfg)) st
           in case smtp_connect w (trace st) (smtp_host cfg) (smtp_port cfg) of
                Some e \<Rightarrow> (Some e, st1)
              | None \<Rightarrow>
                  (case smtp_session cfg w message st1 of
                     (raised, st2) \<Rightarrow>
                       (case smtp_quit w (trace st2) of
                          Some e \<Rightarrow> (Some e, emit Smtp_quit st2)
                        | None \<Rightarrow> (raised, emit Smtp_quit st2)))))))"

text \<open>
  \<open>_send_webhook\<close>: the \<open>try\<close> block is the request followed by the status check, and
  the \<open>except\<close> clause takes a \<open>RequestException\<close> only.
\<close>

definition send_webhook :: "AlertConfig \<Rightarrow> world \<Rightarrow> payload \<Rightarrow> state \<Rightarrow> exn option \<times> state" where
  "send_webhook cfg w p st =
     (if webhook_url cfg = []
      then (None, log_warning ''Webhook URL not configured; skipping webhook alert.'' [] st)
      else
        (let data = [(''title'', title p), (''body'', body p)];
             st1 = emit (Http_post (webhook_url cfg) data (webhook_timeout_seconds cfg)) st;
             raised =
               (case http_post w (trace st) (webhook_url cfg) data (webhook_timeout_seconds cfg) of
                  Inl e \<Rightarrow> Some e
                | Inr response \<Rightarrow> raise_for_status response)
         in case raised of
              Some (RequestException exc) \<Rightarrow>
                (None, log_warning ''Webhook alert failed: %s'' [exc] st1)
            | Some other \<Rightarrow> (Some other, st1)
            | None \<Rightarrow> (None, st1)))"

definition alert ::
  "AlertConfig \<Rightarrow> world \<Rightarrow> string \<Rightarrow> pyfloat option \<Rightarrow> pyint option \<Rightarrow> state \<Rightarrow> exn option \<times> state" where
  "alert cfg w reason duration total_tokens st =
     (let st1 = log_warning ''LangSmith alert: %s'' [reason] st;
          p = build_payload reason duration total_tokens;
          mode = notify_mode cfg
      in if mode = ''webhook'' then send_webhook cfg w p st1
         else if mode = ''smtp'' then
           (case smtp_configured cfg st1 of
              (False, st2) \<Rightarrow> (None, st2)
            | (True, st2) \<Rightarrow> send_email cfg w (title p) (body p) st2)
         else (None, st1))"

text \<open>\<open>str(kwargs.get("run_id", ""))\<close>, the key of the three closing callbacks.\<close>

definition run_key :: "run_id option \<Rightarrow> string" where
  "run_key kw = id_str (case kw of None \<Rightarrow> IdStr [] | Some v \<Rightarrow> v)"

definition on_llm_end ::
  "AlertConfig \<Rightarrow> world \<Rightarrow> real \<Rightarrow> pyval \<Rightarrow> run_id option \<Rightarrow> state \<Rightarrow> exn option \<times> state" where
  "on_llm_end cfg w now response kw st =
     (let run_id = run_key kw
      in case pop_duration now run_id st of
           (Inl e, st1) \<Rightarrow> (Some e, st1)
         | (Inr duration, st1) \<Rightarrow>
             (case extract_total_tokens response of
                Inl e \<Rightarrow> (Some e, st1)
              | Inr total_tokens \<Rightarrow>
                  (case (if (case duration of None \<Rightarrow> False
                                  | Some d \<Rightarrow> float_ge d (latency_seconds cfg))
                         then alert cfg w ''Latency threshold exceeded'' duration total_tokens st1
                         else (None, st1)) of
                     (Some e, st2) \<Rightarrow> (Some e, st2)
                   | (None, st2) \<Rightarrow>
                       (if (case total_tokens of None \<Rightarrow> False
                                 | Some t \<Rightarrow> token_threshold cfg \<le> int_val t)
                        then alert cfg w ''Token threshold exceeded'' duration total_tokens st2
                        else (None, st2)))))"

text \<open>\<open>error\<close> is \<open>str(error)\<close>, the description of the exception handed in.\<close>

definition on_llm_error ::
  "AlertConfig \<Rightarrow> world \<Rightarrow> real \<Rightarrow> string \<Rightarrow> run_id option \<Rightarrow> state \<Rightarrow> exn option \<times> state" where
  "on_llm_error cfg w now error kw st =
     (let run_id = run_key kw
      in case pop_duration now run_id st of
           (Inl e, st1) \<Rightarrow> (Some e, st1)
         | (Inr duration, st1) \<Rightarrow> alert cfg w (''LLM error: '' @ error) duration None st1)"

definition on_chain_error ::
  "AlertConfig \<Rightarrow> world \<Rightarrow> real \<Rightarrow> string \<Rightarrow> run_id option \<Rightarrow> state \<Rightarrow> exn option \<times> state" where
  "on_chain_error cfg w now error kw st =
     (let run_id = run_key kw
      in case pop_duration now run_id st of
           (Inl e, st1) \<Rightarrow> (Some e, st1)
         | (Inr duration, st1) \<Rightarrow> alert cfg w (''Chain error: '' @ error) duration None st1)"


subsection \<open>The extraction order, as a specification\<close>

text \<open>
  The definitions of this subsection are not translations of code: they state what the
  extractor is compared with. \<open>generations_of\<close> is the value the loops run over;
  \<open>well_shaped\<close> says that it is a sequence of sequences, and \<open>generation_records\<close>
  lists the generation records in iteration order (outer sequence, then inner).
  \<open>spec_first_present\<close> picks the sub-field of the output metadata by presence of the key,
  \<open>first_truthy\<close> by truth value; \<open>spec_strategy_order\<close> is the chain of the two
  strategies, and \<open>stored_totals\<close> lists every integer total the chain can reach.
\<close>

definition generations_of :: "pyval \<Rightarrow> pyval" where
  "generations_of r = py_or (py_getattr r ''generations'') (PList [])"

definition elems :: "pyval \<Rightarrow> pyval list" where
  "elems g = (case py_iter g of Inl _ \<Rightarrow> [] | Inr xs \<Rightarrow> xs)"

definition iterable :: "pyval \<Rightarrow> bool" where
  "iterable g = (case py_iter g of Inl _ \<Rightarrow> False | Inr _ \<Rightarrow> True)"

definition well_shaped :: "pyval \<Rightarrow> bool" where
  "well_shaped r = (iterable (generations_of r) \<and> list_all iterable (elems (generations_of r)))"

definition generation_records :: "pyval \<Rightarrow> pyval list" where
  "generation_records r = concat (map elems (elems (generations_of r)))"

definition output_metadata :: "pyval \<Rightarrow> (string \<times> pyval) list option" where
  "output_metadata r = (case py_getattr r ''llm_output'' of PDict d \<Rightarrow> Some d | _ \<Rightarrow> None)"

definition spec_first_present :: "(string \<times> pyval) list \<Rightarrow> pyval option" where
  "spec_first_present d =
     (case map_of d ''token_usage'' of Some v \<Rightarrow> Some v | None \<Rightarrow> map_of d ''usage'')"

definition first_truthy :: "(string \<times> pyval) list \<Rightarrow> pyval option" where
  "first_truthy d = List.find truthy [dict_get d ''token_usage'', dict_get d ''usage'']"

definition metadata_total :: "((string \<times> pyval) list \<Rightarrow> pyval option) \<Rightarrow> pyval \<Rightarrow> pyint option" where
  "metadata_total pick r =
     (case output_metadata r of
        None \<Rightarrow> None
      | Some d \<Rightarrow>
          (case pick d of
             Some (PDict u) \<Rightarrow> as_int (dict_get u ''total_tokens'')
           | _ \<Rightarrow> None))"

definition first_hit :: "pyval list \<Rightarrow> pyint option" where
  "first_hit gens = (case List.map_filter generation_total gens of [] \<Rightarrow> None | t # _ \<Rightarrow> Some t)"

definition spec_strategy_order :: "((string \<times> pyval) list \<Rightarrow> pyval option) \<Rightarrow> pyval \<Rightarrow> pyint option" where
  "spec_strategy_order pick r =
     (case metadata_total pick r of
        Some t \<Rightarrow> Some t
      | None \<Rightarrow> first_hit (generation_records r))"

definition stored_totals :: "pyval \<Rightarrow> pyint list" where
  "stored_totals r =
     (case metadata_total first_truthy r of Some t \<Rightarrow> [t] | None \<Rightarrow> []) @
     List.map_filter generation_total (generation_records r)"


subsection \<open>Observing the alerts\<close>

text \<open>
  \<open>_alert\<close> opens with \<open>logger.warning("LangSmith alert: %s", reason)\<close> on every path,
  and no other log call uses that format: the alerts dispatched are read off the trace as
  the reasons of these log entries, in order.
\<close>

fun alert_reason_of :: "effect \<Rightarrow> string list" where
  "alert_reason_of (Log_warning fmt args) =
     (if fmt = ''LangSmith alert: %s'' then args else [])"
| "alert_reason_of _ = []"

definition alert_reasons :: "effect list \<Rightarrow> string list" where
  "alert_reasons tr = concat (map alert_reason_of tr)"

subsection \<open>Example configurations and transports\<close>

text \<open>
  \<open>from_env_defaults\<close> is what \<open>AlertConfig.from_env\<close> builds in an empty environment.
  In \<open>world_up\<close> every transport call succeeds: the HTTP client refuses a timeout that
  is not positive and the endpoint answers 200 otherwise. In \<open>world_http_500\<close> it
  answers 500, in \<open>world_http_304\<close> it answers 304, and in \<open>world_smtp_down\<close> opening
  the SMTP connection raises. \<open>new_handler\<close> is the handler after \<open>__init__\<close>, before
  any effect.
\<close>

definition from_env_defaults :: AlertConfig where
  "from_env_defaults =
     \<lparr>latency_seconds = Float 5, token_threshold = 50, notify_mode = ''log'', webhook_url = [],
      webhook_timeout_seconds = Float 5, smtp_host = [], smtp_port = 587, smtp_username = [],
      smtp_password = [], smtp_from = [], smtp_to = [], smtp_use_tls = True\<rparr>"

definition webhook_config :: AlertConfig where
  "webhook_config = from_env_defaults\<lparr>notify_mode := ''webhook'', webhook_url := ''http://x''\<rparr>"

definition smtp_config :: AlertConfig where
  "smtp_config =
     from_env_defaults\<lparr>notify_mode := ''smtp'', smtp_host := ''mail.example.org'',
       smtp_from := ''monitor@example.org'', smtp_to := ''oncall@example.org''\<rparr>"

definition answering :: "nat \<Rightarrow> string \<Rightarrow> effect list \<Rightarrow> string \<Rightarrow> (string \<times> string) list \<Rightarrow>
    pyfloat \<Rightarrow> exn + http_response" where
  "answering status phrase tr url json timeout =
     (if float_ge (Float 0) timeout
      then Inl (ValueError ''Attempted to set connect timeout to a value less than or equal to 0'')
      else Inr \<lparr>status_code = status, reason_phrase = phrase, response_url = url\<rparr>)"

definition world_up :: world where
  "world_up =
     \<lparr>http_post = answering 200 ''OK'',
      smtp_connect = (\<lambda>tr host port. None),
      smtp_starttls = (\<lambda>tr. None),
      smtp_login = (\<lambda>tr user password. None),
      smtp_send_message = (\<lambda>tr message. None),
      smtp_quit = (\<lambda>tr. None)\<rparr>"

definition world_http_500 :: world where
  "world_http_500 = world_up\<lparr>http_post := answering 500 ''Internal Server Error''\<rparr>"

definition world_http_304 :: world where
  "world_http_304 = world_up\<lparr>http_post := answering 304 ''Not Modified''\<rparr>"

definition world_smtp_down :: world where
  "world_smtp_down =
     world_up\<lparr>smtp_connect := (\<lambda>tr host port. Some (SMTPException ''SMTPConnectError''))\<rparr>"

definition new_handler :: state where
  "new_handler = \<lparr>start_times = Map.empty, trace = []\<rparr>"

text \<open>
  Clock readings for the rounding of the difference: the exact values of the floats
  \<open>5.1\<close>, \<open>0.3\<close> and \<open>0.1\<close>, \<open>2^-60\<close>, half the spacing of the floats above 1
  (\<open>2^-53\<close>), and the first and the second float above 1.
\<close>

definition float_5_1 :: real where
  "float_5_1 = 5742089524897382 / 2 ^ 50"

definition float_0_1 :: real where
  "float_0_1 = 3602879701896397 / 2 ^ 55"

definition two_pow_minus_60 :: real where
  "two_pow_minus_60 = 1 / 2 ^ 60"

definition float_0_3 :: real where
  "float_0_3 = 5404319552844595 / 2 ^ 54"

definition half_spacing :: real where
  "half_spacing = 1 / 2 ^ 53"

definition first_above_1 :: real where
  "first_above_1 = 1 + 1 / 2 ^ 52"

definition second_above_1 :: real where
  "second_above_1 = 1 + 1 / 2 ^ 51"

text \<open>A response whose output metadata reports \<open>n\<close> total tokens, with no generations.\<close>

definition usage_response :: "int \<Rightarrow> pyval" where
  "usage_response n =
     PObj [(''llm_output'', PDict [(''token_usage'', PDict [(''total_tokens'', PInt n)])]),
           (''generations'', PList [])]"

subsection \<open>Decimal text, as a specification\<close>

text \<open>
  What a decimal text denotes, read independently of the functions that print:
  \<open>digits_value\<close> is the number a string of digits stands for, and \<open>decimal_of n s\<close>
  says that \<open>s\<close> is the decimal text of \<open>n\<close>, digits only and with no leading zero.
\<close>

definition is_digit :: "char \<Rightarrow> bool" where
  "is_digit c = (c \<in> set ''0123456789'')"

definition digit_val :: "char \<Rightarrow> nat" where
  "digit_val c = of_char c - 48"

definition digits_value :: "string \<Rightarrow> nat" where
  "digits_value s = foldl (\<lambda>a c. 10 * a + digit_val c) 0 s"

definition decimal_of :: "nat \<Rightarrow> string \<Rightarrow> bool" where
  "decimal_of n s =
     (s \<noteq> [] \<and> list_all is_digit s \<and> digits_value s = n \<and> (hd s \<noteq> CHR ''0'' \<or> s = ''0''))"

section \<open>Properties\<close>

subsection \<open>Token extraction\<close>

lemma map_filter_app:
  "List.map_filter f (xs @ ys) = List.map_filter f xs @ List.map_filter f ys"
  by (simp add: List.map_filter_def)

lemma scan_group_first_hit: "scan_group xs = first_hit xs"
  by (induction xs) (auto simp: first_hit_def List.map_filter_simps split: option.splits)

lemma first_hit_append:
  "first_hit (xs @ ys) = (case first_hit xs of Some t \<Rightarrow> Some t | None \<Rightarrow> first_hit ys)"
  by (induction xs) (auto simp: first_hit_def List.map_filter_simps split: option.splits)

lemma scan_groups_shaped:
  "list_all iterable gs \<Longrightarrow> scan_groups gs = Inr (first_hit (concat (map elems gs)))"
proof (induction gs)
  case Nil
  show ?case by (simp add: first_hit_def List.map_filter_simps)
next
  case (Cons g gs)
  from Cons.prems obtain xs where it: "py_iter g = Inr xs"
    by (auto simp: iterable_def split: sum.splits)
  from Cons show ?case
    by (simp add: it elems_def first_hit_append scan_group_first_hit split: option.splits)
qed

lemma scan_groups_member:
  "scan_groups gs = Inr (Some t) \<Longrightarrow> t \<in> set (List.map_filter generation_total (concat (map elems gs)))"
proof (induction gs)
  case Nil
  then show ?case by simp
next
  case (Cons g gs)
  show ?case
  proof (cases "py_iter g")
    case (Inl e)
    with Cons.prems show ?thesis by simp
  next
    case (Inr xs)
    show ?thesis
    proof (cases "scan_group xs")
      case None
      with Inr Cons show ?thesis by (auto simp: elems_def map_filter_app)
    next
      case (Some u)
      with Inr Cons.prems have "u = t" by simp
      with Some have "first_hit xs = Some t" by (simp add: scan_group_first_hit)
      then have "t \<in> set (List.map_filter generation_total xs)"
        by (auto simp: first_hit_def split: list.splits)
      with Inr show ?thesis by (auto simp: elems_def map_filter_app)
    qed
  qed
qed

lemma scan_groups_returns:
  "scan_groups gs = Inr res \<Longrightarrow> res = first_hit (concat (map elems gs))"
proof (induction gs)
  case Nil
  then show ?case by (simp add: first_hit_def)
next
  case (Cons g gs)
  show ?case
  proof (cases "py_iter g")
    case (Inl e)
    with Cons.prems show ?thesis by simp
  next
    case (Inr xs)
    show ?thesis
    proof (cases "first_hit xs")
      case None
      with Inr Cons show ?thesis
        by (simp add: elems_def first_hit_append scan_group_first_hit)
    next
      case (Some u)
      with Inr Cons.prems have "res = Some u"
        by (simp add: scan_group_first_hit)
      with Inr Some show ?thesis
        by (simp add: elems_def first_hit_append)
    qed
  qed
qed

lemma step1_metadata_total:
  "(case py_or (py_getattr r ''llm_output'') (PDict []) of
      PDict d \<Rightarrow>
        as_int (case py_or (py_or (dict_get d ''token_usage'') (dict_get d ''usage'')) (PDict []) of
                  PDict u \<Rightarrow> dict_get u ''total_tokens''
                | _ \<Rightarrow> PNone)
    | _ \<Rightarrow> None) = metadata_total first_truthy r"
  by (auto simp: metadata_total_def output_metadata_def first_truthy_def py_or_def dict_get_def
      split: pyval.splits option.splits)

lemma extract_cases:
  "extract_total_tokens r =
     (case metadata_total first_truthy r of
        Some t \<Rightarrow> Inr (Some t)
      | None \<Rightarrow> (case py_iter (generations_of r) of Inl e \<Rightarrow> Inl e | Inr gs \<Rightarrow> scan_groups gs))"
  unfolding extract_total_tokens_def Let_def generations_of_def step1_metadata_total
  by (rule refl)

lemma well_shaped_returns:
  "well_shaped r \<Longrightarrow> \<exists>res. extract_total_tokens r = Inr res"
proof -
  assume ws: "well_shaped r"
  then obtain gs where it: "py_iter (generations_of r) = Inr gs"
    by (auto simp: well_shaped_def iterable_def split: sum.splits)
  with ws have "list_all iterable gs"
    by (simp add: well_shaped_def elems_def)
  then have "scan_groups gs = Inr (first_hit (concat (map elems gs)))"
    by (rule scan_groups_shaped)
  then show ?thesis
    by (simp add: extract_cases it split: option.splits)
qed

lemmas eval_extract =
  extract_total_tokens_def well_shaped_def iterable_def elems_def generations_of_def
  generation_records_def stored_totals_def spec_strategy_order_def metadata_total_def
  output_metadata_def first_truthy_def spec_first_present_def first_hit_def generation_total_def
  py_or_def dict_get_def

text \<open>
  Claim C5, as the code has it. Whenever extraction returns, its result is that of the
  fixed order: the output metadata is consulted first, where of the \<open>token_usage\<close> and
  \<open>usage\<close> entries the first one that is truthy is taken (an entry that is present but
  empty, zero or \<open>None\<close> is passed over) and its \<open>total_tokens\<close> counts when it is an
  integer; only when that yields nothing, the first integer \<open>total_tokens\<close> of a
  generation's message usage metadata in iteration order, and none when there is no such
  generation. An integer found in the output metadata is returned whatever the
  generations hold, and extraction returns for every response whose generations are a
  sequence of sequences.
\<close>

theorem extract_strategy_order:
  "(extract_total_tokens r = Inr res \<longrightarrow> res = spec_strategy_order first_truthy r) \<and>
   (metadata_total first_truthy r = Some t \<longrightarrow> extract_total_tokens r = Inr (Some t)) \<and>
   (well_shaped r \<longrightarrow> extract_total_tokens r = Inr (spec_strategy_order first_truthy r))"
proof (intro conjI impI)
  assume ret: "extract_total_tokens r = Inr res"
  show "res = spec_strategy_order first_truthy r"
  proof (cases "metadata_total first_truthy r")
    case (Some u)
    with ret have "res = Some u" by (simp add: extract_cases)
    with Some show ?thesis by (simp add: spec_strategy_order_def)
  next
    case None
    with ret obtain gs where it: "py_iter (generations_of r) = Inr gs"
      and sc: "scan_groups gs = Inr res"
      by (auto simp: extract_cases split: sum.splits)
    from sc have "res = first_hit (concat (map elems gs))"
      by (rule scan_groups_returns)
    with None it show ?thesis
      by (simp add: spec_strategy_order_def generation_records_def elems_def)
  qed
next
  assume "metadata_total first_truthy r = Some t"
  then show "extract_total_tokens r = Inr (Some t)"
    by (simp add: extract_cases)
next
  assume ws: "well_shaped r"
  then obtain gs where it: "py_iter (generations_of r) = Inr gs"
    by (auto simp: well_shaped_def iterable_def split: sum.splits)
  with ws have "list_all iterable gs"
    by (simp add: well_shaped_def elems_def)
  then have "scan_groups gs = Inr (first_hit (concat (map elems gs)))"
    by (rule scan_groups_shaped)
  moreover have "generation_records r = concat (map elems gs)"
    by (simp add: generation_records_def elems_def it)
  ultimately show "extract_total_tokens r = Inr (spec_strategy_order first_truthy r)"
    by (simp add: extract_cases spec_strategy_order_def it split: option.splits)
qed

theorem extract_strategy_order_witness:
  "metadata_total first_truthy
     (PObj [(''llm_output'', PDict [(''usage'', PDict [(''total_tokens'', PInt 7)])])]) = Some (IntV 7) \<and>
   extract_total_tokens
     (PObj [(''llm_output'', PDict [(''usage'', PDict [(''total_tokens'', PInt 7)])])]) = Inr (Some (IntV 7)) \<and>
   well_shaped
     (PObj [(''llm_output'', PNone),
            (''generations'', PList [PList [PObj [(''text'', PStr ''a'')],
               PObj [(''message'', PObj [(''usage_metadata'', PDict [(''total_tokens'', PInt 12)])])]],
               PList [PObj [(''message'', PObj [(''usage_metadata'', PDict [(''total_tokens'', PInt 30)])])]]])]) \<and>
   extract_total_tokens
     (PObj [(''llm_output'', PNone),
            (''generations'', PList [PList [PObj [(''text'', PStr ''a'')],
               PObj [(''message'', PObj [(''usage_metadata'', PDict [(''total_tokens'', PInt 12)])])]],
               PList [PObj [(''message'', PObj [(''usage_metadata'', PDict [(''total_tokens'', PInt 30)])])]]])])
     = Inr (Some (IntV 12))"
  using extract_strategy_order
    [of "PObj [(''llm_output'', PDict [(''usage'', PDict [(''total_tokens'', PInt 7)])])]"
       "Some (IntV 7)" "IntV 7"]
    extract_strategy_order
    [of "PObj [(''llm_output'', PNone),
            (''generations'', PList [PList [PObj [(''text'', PStr ''a'')],
               PObj [(''message'', PObj [(''usage_metadata'', PDict [(''total_tokens'', PInt 12)])])]],
               PList [PObj [(''message'', PObj [(''usage_metadata'', PDict [(''total_tokens'', PInt 30)])])]]])]"
       "Some (IntV 12)" "IntV 12"]
  by (simp add: well_shaped_def iterable_def elems_def generations_of_def
      generation_records_def spec_strategy_order_def metadata_total_def
      output_metadata_def first_truthy_def first_hit_def generation_total_def
      py_or_def dict_get_def)

text \<open>
  With "the first one present wins" the claim fails: for an output metadata whose
  \<open>token_usage\<close> is an empty dict and whose \<open>usage\<close> holds a total of 7, the code returns
  7, while the order by presence stops at \<open>token_usage\<close> and finds nothing.
\<close>

theorem first_present_counterexample:
  "well_shaped
     (PObj [(''llm_output'', PDict [(''token_usage'', PDict []),
                                    (''usage'', PDict [(''total_tokens'', PInt 7)])])]) \<and>
   extract_total_tokens
     (PObj [(''llm_output'', PDict [(''token_usage'', PDict []),
                                    (''usage'', PDict [(''total_tokens'', PInt 7)])])])
     = Inr (Some (IntV 7)) \<and>
   spec_strategy_order spec_first_present
     (PObj [(''llm_output'', PDict [(''token_usage'', PDict []),
                                    (''usage'', PDict [(''total_tokens'', PInt 7)])])]) = None"
  by (simp add: eval_extract)

text \<open>
  Claim C6, for the responses whose generations are a sequence of sequences: extraction
  does not raise, and it returns none when no integer total is stored at any place the
  extractor consults. The four shapes the claim names are instances: an empty response, a
  \<open>token_usage\<close> whose \<open>total_tokens\<close> is not an integer, an empty sequence of
  generations, generations without usage metadata.
\<close>

theorem extract_none_when_nothing_stored:
  assumes "well_shaped r"
  shows "(\<exists>res. extract_total_tokens r = Inr res) \<and>
         (stored_totals r = [] \<longrightarrow> extract_total_tokens r = Inr None)"
proof -
  from assms obtain gs where it: "py_iter (generations_of r) = Inr gs"
    by (auto simp: well_shaped_def iterable_def split: sum.splits)
  with assms have "list_all iterable gs"
    by (simp add: well_shaped_def elems_def)
  then have sc: "scan_groups gs = Inr (first_hit (concat (map elems gs)))"
    by (rule scan_groups_shaped)
  have rec: "generation_records r = concat (map elems gs)"
    by (simp add: generation_records_def elems_def it)
  have "\<exists>res. extract_total_tokens r = Inr res"
    by (simp add: extract_cases it sc split: option.splits)
  moreover have "extract_total_tokens r = Inr None" if "stored_totals r = []"
  proof -
    from that have "metadata_total first_truthy r = None"
      and "List.map_filter generation_total (concat (map elems gs)) = []"
      by (auto simp: stored_totals_def rec split: option.splits)
    then show ?thesis
      by (simp add: extract_cases it sc first_hit_def)
  qed
  ultimately show ?thesis by blast
qed

theorem extract_none_when_nothing_stored_witness:
  "well_shaped (PObj []) \<and> stored_totals (PObj []) = [] \<and>
   extract_total_tokens (PObj []) = Inr None \<and>
   well_shaped (PObj [(''llm_output'', PDict [(''token_usage'', PDict [(''total_tokens'', PStr ''12'')])])]) \<and>
   stored_totals (PObj [(''llm_output'', PDict [(''token_usage'', PDict [(''total_tokens'', PStr ''12'')])])]) = [] \<and>
   extract_total_tokens
     (PObj [(''llm_output'', PDict [(''token_usage'', PDict [(''total_tokens'', PStr ''12'')])])]) = Inr None \<and>
   well_shaped (PObj [(''generations'', PList [])]) \<and>
   stored_totals (PObj [(''generations'', PList [])]) = [] \<and>
   extract_total_tokens (PObj [(''generations'', PList [])]) = Inr None \<and>
   well_shaped (PObj [(''generations'', PList [PList [PObj [(''message'', PObj [(''content'', PStr ''hi'')])]]])]) \<and>
   stored_totals (PObj [(''generations'', PList [PList [PObj [(''message'', PObj [(''content'', PStr ''hi'')])]]])]) = [] \<and>
   extract_total_tokens
     (PObj [(''generations'', PList [PList [PObj [(''message'', PObj [(''content'', PStr ''hi'')])]]])]) = Inr None"
  using extract_none_when_nothing_stored [of "PObj []"]
    extract_none_when_nothing_stored
      [of "PObj [(''llm_output'', PDict [(''token_usage'', PDict [(''total_tokens'', PStr ''12'')])])]"]
    extract_none_when_nothing_stored [of "PObj [(''generations'', PList [])]"]
    extract_none_when_nothing_stored
      [of "PObj [(''generations'', PList [PList [PObj [(''message'', PObj [(''content'', PStr ''hi'')])]]])]"]
  by (simp add: well_shaped_def iterable_def elems_def generations_of_def
      generation_records_def stored_totals_def metadata_total_def
      output_metadata_def first_truthy_def generation_total_def py_or_def dict_get_def)

text \<open>
  For every response the claim fails: a sequence of generations with a group that is not
  iterable (here \<open>None\<close>) holds no total, and the inner \<open>for\<close> raises \<open>TypeError\<close>.
\<close>

theorem malformed_generations_counterexample:
  "stored_totals (PObj [(''generations'', PList [PNone])]) = [] \<and>
   extract_total_tokens (PObj [(''generations'', PList [PNone])])
     = Inl (TypeError ''object is not iterable'')"
  by (simp add: eval_extract)

text \<open>
  Claim C8, as the code has it: a value that extraction returns is one of the integers
  stored as \<open>total_tokens\<close> in the response, unchanged. No sign is checked, so the value
  is non-negative when the stored totals are.
\<close>

theorem extracted_total_is_stored:
  assumes "extract_total_tokens r = Inr (Some t)"
  shows "t \<in> set (stored_totals r) \<and>
         ((\<forall>u\<in>set (stored_totals r). 0 \<le> int_val u) \<longrightarrow> 0 \<le> int_val t)"
proof -
  have "t \<in> set (stored_totals r)"
  proof (cases "metadata_total first_truthy r")
    case (Some u)
    with assms show ?thesis by (simp add: extract_cases stored_totals_def)
  next
    case None
    with assms obtain gs where it: "py_iter (generations_of r) = Inr gs"
      and sc: "scan_groups gs = Inr (Some t)"
      by (auto simp: extract_cases split: sum.splits)
    from sc have "t \<in> set (List.map_filter generation_total (concat (map elems gs)))"
      by (rule scan_groups_member)
    with it show ?thesis
      by (simp add: stored_totals_def generation_records_def elems_def)
  qed
  then show ?thesis by blast
qed

theorem extracted_total_is_stored_witness:
  "extract_total_tokens
     (PObj [(''llm_output'', PDict [(''token_usage'', PDict [(''total_tokens'', PInt 42)])])])
     = Inr (Some (IntV 42)) \<and>
   IntV 42 \<in> set (stored_totals
     (PObj [(''llm_output'', PDict [(''token_usage'', PDict [(''total_tokens'', PInt 42)])])])) \<and>
   0 \<le> int_val (IntV 42)"
  using extracted_total_is_stored
    [of "PObj [(''llm_output'', PDict [(''token_usage'', PDict [(''total_tokens'', PInt 42)])])]" "IntV 42"]
  by (simp add: eval_extract)

text \<open>
  A stored total of \<open>-5\<close> is returned as it is: the result of extraction can be negative.
\<close>

theorem negative_total_counterexample:
  "extract_total_tokens
     (PObj [(''llm_output'', PDict [(''token_usage'', PDict [(''total_tokens'', PInt (- 5))])])])
     = Inr (Some (IntV (- 5))) \<and>
   int_val (IntV (- 5)) < 0"
  by (simp add: eval_extract)

subsection \<open>Effects, texts and payloads\<close>

lemma alert_reasons_append [simp]:
  "alert_reasons (xs @ ys) = alert_reasons xs @ alert_reasons ys"
  by (simp add: alert_reasons_def)

lemma alert_reasons_Nil [simp]: "alert_reasons [] = []"
  by (simp add: alert_reasons_def)

lemma alert_reasons_Cons [simp]: "alert_reasons (e # tr) = alert_reason_of e @ alert_reasons tr"
  by (simp add: alert_reasons_def)

lemma trace_emit [simp]: "trace (emit e st) = trace st @ [e]"
  by (simp add: emit_def)

lemma start_times_emit [simp]: "start_times (emit e st) = start_times st"
  by (simp add: emit_def)

lemma trace_log_warning [simp]: "trace (log_warning fmt args st) = trace st @ [Log_warning fmt args]"
  by (simp add: log_warning_def)

lemma start_times_log_warning [simp]: "start_times (log_warning fmt args st) = start_times st"
  by (simp add: log_warning_def)

lemma round_half_even_near: "\<bar>of_int (round_half_even x) - x\<bar> \<le> 1 / 2"
  unfolding round_half_even_def Let_def by (auto; linarith)

lemma round_half_even_tie:
  "\<bar>of_int (round_half_even x) - x\<bar> = 1 / 2 \<Longrightarrow> even (round_half_even x)"
  unfolding round_half_even_def Let_def by (auto split: if_splits; linarith)

lemma round_half_even_nonneg: "0 \<le> x \<Longrightarrow> 0 \<le> round_half_even x"
  unfolding round_half_even_def Let_def by (auto; linarith)

lemma digit_at:
  assumes "j < 10"
  shows "is_digit (''0123456789'' ! j) \<and> digit_val (''0123456789'' ! j) = j"
proof -
  from assms consider "j = 0" | "j = 1" | "j = 2" | "j = 3" | "j = 4" | "j = 5" | "j = 6"
    | "j = 7" | "j = 8" | "j = 9"
    by atomize_elim presburger
  then show ?thesis
    by cases (simp_all add: is_digit_def digit_val_def)
qed

lemma is_digit_digit_char: "is_digit (digit_char n)"
  using digit_at [of "n mod 10"] by (simp add: digit_char_def)

lemma digit_val_digit_char: "digit_val (digit_char n) = n mod 10"
  using digit_at [of "n mod 10"] by (simp add: digit_char_def)

lemma digits_value_snoc: "digits_value (s @ [c]) = 10 * digits_value s + digit_val c"
  by (simp add: digits_value_def)

lemma str_nat_nonempty: "str_nat n \<noteq> []"
  by (subst str_nat.simps) simp

lemma str_nat_digits: "list_all is_digit (str_nat n)"
proof (induction n rule: str_nat.induct)
  case (1 n)
  show ?case
  proof (cases "n < 10")
    case True
    then show ?thesis by (subst str_nat.simps) (simp add: is_digit_digit_char)
  next
    case False
    with "1" show ?thesis by (subst str_nat.simps) (simp add: is_digit_digit_char)
  qed
qed

lemma str_nat_value: "digits_value (str_nat n) = n"
proof (induction n rule: str_nat.induct)
  case (1 n)
  show ?case
  proof (cases "n < 10")
    case True
    then show ?thesis
      by (subst str_nat.simps) (simp add: digits_value_def digit_val_digit_char)
  next
    case False
    with "1" have "digits_value (str_nat (n div 10)) = n div 10" by simp
    with False show ?thesis
      by (subst str_nat.simps) (simp add: digits_value_snoc digit_val_digit_char)
  qed
qed

lemma str_nat_leading: "hd (str_nat n) = CHR ''0'' \<Longrightarrow> n = 0"
proof (induction n rule: str_nat.induct)
  case (1 n)
  show ?case
  proof (cases "n < 10")
    case True
    with "1.prems" have "digit_char n = CHR ''0''"
      by (subst (asm) str_nat.simps) simp
    then have "digit_val (digit_char n) = digit_val (CHR ''0'')" by simp
    moreover have "digit_val (CHR ''0'') = 0" by (simp add: digit_val_def)
    ultimately have "n mod 10 = 0" by (simp only: digit_val_digit_char)
    with True show ?thesis by simp
  next
    case False
    with "1.prems" have "hd (str_nat (n div 10)) = CHR ''0''"
      by (subst (asm) str_nat.simps) (simp add: str_nat_nonempty)
    with False "1.IH" have "n div 10 = 0" by simp
    with False show ?thesis by simp
  qed
qed

lemma str_nat_zero: "str_nat 0 = ''0''"
  by (simp add: str_nat.simps digit_char_def)

lemma decimal_of_str_nat: "decimal_of n (str_nat n)"
proof -
  have "hd (str_nat n) \<noteq> CHR ''0'' \<or> str_nat n = ''0''"
    using str_nat_leading [of n] str_nat_zero by auto
  then show ?thesis
    by (simp add: decimal_of_def str_nat_nonempty str_nat_digits str_nat_value)
qed


lemma two_digits_value:
  "digits_value [digit_char (n mod 100 div 10), digit_char (n mod 10)] = n mod 100"
proof -
  have "digits_value [digit_char (n mod 100 div 10), digit_char (n mod 10)] =
      10 * (n mod 100 div 10 mod 10) + n mod 10 mod 10"
    by (simp add: digits_value_def digit_val_digit_char)
  also have "\<dots> = n mod 100"
  proof -
    have "n mod 100 < 10 * 10" by simp
    then have a: "n mod 100 div 10 < 10" by (simp only: less_mult_imp_div_less)
    have b: "n mod 10 = n mod 100 mod 10" by (simp add: mod_mod_cancel)
    have "10 * (n mod 100 div 10) + n mod 100 mod 10 = n mod 100" by simp
    with a b show ?thesis by simp
  qed
  finally show ?thesis .
qed

lemma fmt2f_finite:
  "\<exists>n ip f1 f2.
     fmt2f (Float x) = (if x < 0 then ''-'' else []) @ ip @ ''.'' @ [f1, f2] \<and>
     decimal_of (n div 100) ip \<and> is_digit f1 \<and> is_digit f2 \<and>
     digits_value [f1, f2] = n mod 100 \<and>
     \<bar>real n - \<bar>x\<bar> * 100\<bar> \<le> 1 / 2 \<and>
     (\<bar>real n - \<bar>x\<bar> * 100\<bar> = 1 / 2 \<longrightarrow> even n)"
proof -
  define k where "k = round_half_even (\<bar>x\<bar> * 100)"
  define n where "n = nat k"
  have "0 \<le> k" unfolding k_def by (rule round_half_even_nonneg) simp
  then have rn: "real n = of_int k" by (simp add: n_def)
  have near: "\<bar>real n - \<bar>x\<bar> * 100\<bar> \<le> 1 / 2"
    unfolding rn k_def by (rule round_half_even_near)
  have tie: "even n" if "\<bar>real n - \<bar>x\<bar> * 100\<bar> = 1 / 2"
  proof -
    from that have "even k" unfolding rn k_def by (rule round_half_even_tie)
    with \<open>0 \<le> k\<close> show ?thesis by (simp add: n_def even_nat_iff)
  qed
  have shape: "fmt2f (Float x) = (if x < 0 then ''-'' else []) @ str_nat (n div 100) @ ''.'' @
      [digit_char (n mod 100 div 10), digit_char (n mod 10)]"
    by (simp add: Let_def n_def k_def)
  show ?thesis
  proof (intro exI conjI impI)
    show "fmt2f (Float x) = (if x < 0 then ''-'' else []) @ str_nat (n div 100) @ ''.'' @
        [digit_char (n mod 100 div 10), digit_char (n mod 10)]"
      by (rule shape)
    show "decimal_of (n div 100) (str_nat (n div 100))" by (rule decimal_of_str_nat)
    show "is_digit (digit_char (n mod 100 div 10))" by (rule is_digit_digit_char)
    show "is_digit (digit_char (n mod 10))" by (rule is_digit_digit_char)
    show "digits_value [digit_char (n mod 100 div 10), digit_char (n mod 10)] = n mod 100"
      by (rule two_digits_value)
    show "\<bar>real n - \<bar>x\<bar> * 100\<bar> \<le> 1 / 2" by (rule near)
    show "even n" if "\<bar>real n - \<bar>x\<bar> * 100\<bar> = 1 / 2" using that by (rule tie)
  qed
qed

lemma str_pyint_int:
  "\<exists>s. str_pyint (IntV i) = (if i < 0 then ''-'' else []) @ s \<and> decimal_of (nat \<bar>i\<bar>) s"
proof (cases "i < 0")
  case True
  then have "nat \<bar>i\<bar> = nat (- i)" by simp
  with True show ?thesis
    using decimal_of_str_nat [of "nat (- i)"] by (simp add: str_int_def)
next
  case False
  then have "nat \<bar>i\<bar> = nat i" by simp
  with False show ?thesis
    using decimal_of_str_nat [of "nat i"] by (simp add: str_int_def)
qed

lemmas eval_text = round_half_even_def str_int_def str_nat.simps digit_char_def Let_def

text \<open>
  Claim C9. The title is \<open>"LangSmith alert: "\<close> followed by the reason. The body is the
  line \<open>"Reason: " + reason\<close>, then the latency line when a duration is given, then the
  token line when a count is given, with one newline between two lines and none after
  the last. The latency text is that of two decimal places: for a finite duration a minus
  sign when it is negative, the decimal text of the whole part, a point and two digits,
  which together denote the number of hundredths nearest to the duration, the even one
  on a tie; \<open>-0.00\<close>, \<open>inf\<close>, \<open>-inf\<close> and \<open>nan\<close> for the other floats. The count is
  printed as the decimal text of the integer, with its sign, and as \<open>True\<close> or \<open>False\<close>
  when it is a boolean.
\<close>

theorem build_payload_layout:
  "title (build_payload reason duration total_tokens) = ''LangSmith alert: '' @ reason \<and>
   body (build_payload reason None None) = ''Reason: '' @ reason \<and>
   body (build_payload reason (Some d) None) =
     ''Reason: '' @ reason @ [CHR 0x0A] @ ''Latency: '' @ fmt2f d @ ''s'' \<and>
   body (build_payload reason None (Some t)) =
     ''Reason: '' @ reason @ [CHR 0x0A] @ ''Total tokens: '' @ str_pyint t \<and>
   body (build_payload reason (Some d) (Some t)) =
     ''Reason: '' @ reason @ [CHR 0x0A] @ ''Latency: '' @ fmt2f d @ ''s'' @
     [CHR 0x0A] @ ''Total tokens: '' @ str_pyint t \<and>
   (\<exists>n ip f1 f2.
      fmt2f (Float x) = (if x < 0 then ''-'' else []) @ ip @ ''.'' @ [f1, f2] \<and>
      decimal_of (n div 100) ip \<and> is_digit f1 \<and> is_digit f2 \<and>
      digits_value [f1, f2] = n mod 100 \<and>
      \<bar>real n - \<bar>x\<bar> * 100\<bar> \<le> 1 / 2 \<and>
      (\<bar>real n - \<bar>x\<bar> * 100\<bar> = 1 / 2 \<longrightarrow> even n)) \<and>
   fmt2f NegZero = ''-0.00'' \<and> fmt2f PosInf = ''inf'' \<and> fmt2f NegInf = ''-inf'' \<and>
   fmt2f NaN = ''nan'' \<and>
   (\<exists>s. str_pyint (IntV i) = (if i < 0 then ''-'' else []) @ s \<and> decimal_of (nat \<bar>i\<bar>) s) \<and>
   str_pyint (BoolV True) = ''True'' \<and> str_pyint (BoolV False) = ''False''"
proof -
  have layout:
    "title (build_payload reason duration total_tokens) = ''LangSmith alert: '' @ reason"
    "body (build_payload reason None None) = ''Reason: '' @ reason"
    "body (build_payload reason (Some d) None) =
       ''Reason: '' @ reason @ [CHR 0x0A] @ ''Latency: '' @ fmt2f d @ ''s''"
    "body (build_payload reason None (Some t)) =
       ''Reason: '' @ reason @ [CHR 0x0A] @ ''Total tokens: '' @ str_pyint t"
    "body (build_payload reason (Some d) (Some t)) =
       ''Reason: '' @ reason @ [CHR 0x0A] @ ''Latency: '' @ fmt2f d @ ''s'' @
       [CHR 0x0A] @ ''Total tokens: '' @ str_pyint t"
    by (simp_all add: build_payload_def Let_def split: option.splits)
  have special: "fmt2f NegZero = ''-0.00''" "fmt2f PosInf = ''inf''" "fmt2f NegInf = ''-inf''"
    "fmt2f NaN = ''nan''" "str_pyint (BoolV True) = ''True''" "str_pyint (BoolV False) = ''False''"
    by simp_all
  show ?thesis
    by (intro conjI) (rule layout special fmt2f_finite str_pyint_int)+
qed

theorem build_payload_layout_witness:
  "title (build_payload ''Latency threshold exceeded'' (Some (Float (5 / 2))) (Some (IntV 10))) =
     ''LangSmith alert: Latency threshold exceeded'' \<and>
   body (build_payload ''Latency threshold exceeded'' (Some (Float (5 / 2))) (Some (IntV 10))) =
     ''Reason: Latency threshold exceeded'' @ [CHR 0x0A] @ ''Latency: 2.50s'' @ [CHR 0x0A] @
     ''Total tokens: 10'' \<and>
   body (build_payload ''Latency threshold exceeded'' (Some (Float (5 / 2))) None) =
     ''Reason: Latency threshold exceeded'' @ [CHR 0x0A] @ ''Latency: 2.50s'' \<and>
   body (build_payload ''LLM error: boom'' None None) = ''Reason: LLM error: boom'' \<and>
   fmt2f (Float (5 / 2)) = ''2.50'' \<and> decimal_of 2 ''2'' \<and> digits_value ''50'' = 50 \<and>
   \<bar>real 250 - \<bar>5 / 2\<bar> * 100\<bar> \<le> 1 / 2 \<and>
   fmt2f (Float (1 / 8)) = ''0.12'' \<and> fmt2f (Float (- 1 / 1000)) = ''-0.00'' \<and>
   str_pyint (IntV (- 12)) = ''-12''"
  using build_payload_layout
    [of "''Latency threshold exceeded''" "Some (Float (5 / 2))" "Some (IntV 10)" "Float (5 / 2)"
       "IntV 10" "5 / 2" 10]
    build_payload_layout [of "''LLM error: boom''" None None "Float 0" "IntV 0" 0 0]
  by (simp add: eval_text decimal_of_def is_digit_def digits_value_def digit_val_def)

subsection \<open>Dispatch\<close>


lemma send_webhook_cases:
  "send_webhook cfg w p st =
     (if webhook_url cfg = []
      then (None, st\<lparr>trace := trace st @
              [Log_warning ''Webhook URL not configured; skipping webhook alert.'' []]\<rparr>)
      else
        (case (case http_post w (trace st) (webhook_url cfg)
                      [(''title'', title p), (''body'', body p)] (webhook_timeout_seconds cfg) of
                 Inl e \<Rightarrow> Some e
               | Inr response \<Rightarrow> raise_for_status response) of
           None \<Rightarrow>
             (None, st\<lparr>trace := trace st @
                [Http_post (webhook_url cfg) [(''title'', title p), (''body'', body p)]
                   (webhook_timeout_seconds cfg)]\<rparr>)
         | Some e \<Rightarrow>
             (case e of
                RequestException exc \<Rightarrow>
                  (None, st\<lparr>trace := trace st @
                     [Http_post (webhook_url cfg) [(''title'', title p), (''body'', body p)]
                        (webhook_timeout_seconds cfg),
                      Log_warning ''Webhook alert failed: %s'' [exc]]\<rparr>)
              | _ \<Rightarrow>
                  (Some e, st\<lparr>trace := trace st @
                     [Http_post (webhook_url cfg) [(''title'', title p), (''body'', body p)]
                        (webhook_timeout_seconds cfg)]\<rparr>))))"
  by (simp add: send_webhook_def Let_def log_warning_def emit_def split: option.splits exn.splits)

lemma send_webhook_alerts:
  "alert_reasons (trace (snd (send_webhook cfg w p st))) = alert_reasons (trace st)"
  by (simp add: send_webhook_cases split: option.splits exn.splits)



lemma title_build_payload: "title (build_payload reason d t) = ''LangSmith alert: '' @ reason"
  by (simp add: build_payload_def Let_def)


lemmas eval_examples =
  from_env_defaults_def webhook_config_def smtp_config_def answering_def world_up_def
  world_http_500_def world_http_304_def world_smtp_down_def new_handler_def usage_response_def

lemmas eval_handler =
  on_llm_start_def on_llm_end_def on_llm_error_def on_chain_error_def run_key_def
  pop_duration_def dict_pop_def alert_def build_payload_def send_webhook_def send_email_def
  smtp_session_def smtp_configured_def raise_for_status_def set_header_def
  is_line_boundary_def log_warning_def emit_def




text \<open>Every dispatch adds exactly one alert to the trace, whatever the channel does.\<close>

lemma smtp_session_alerts:
  "alert_reasons (trace (snd (smtp_session cfg w message st))) = alert_reasons (trace st)"
proof -
  obtain r1 st1 where s1:
    "(if smtp_use_tls cfg then (smtp_starttls w (trace st), emit Smtp_starttls st) else (None, st))
       = (r1, st1)"
    by (cases "smtp_use_tls cfg") simp_all
  then have a1: "alert_reasons (trace st1) = alert_reasons (trace st)"
    by (auto split: if_splits)
  obtain r2 st2 where s2:
    "(if smtp_username cfg \<noteq> [] \<and> smtp_password cfg \<noteq> []
      then (smtp_login w (trace st1) (smtp_username cfg) (smtp_password cfg),
            emit (Smtp_login (smtp_username cfg) (smtp_password cfg)) st1)
      else (None, st1)) = (r2, st2)"
    by (cases "smtp_username cfg \<noteq> [] \<and> smtp_password cfg \<noteq> []") simp_all
  then have a2: "alert_reasons (trace st2) = alert_reasons (trace st1)"
    by (auto split: if_splits)
  show ?thesis
    unfolding smtp_session_def s1
    by (cases r1; cases r2) (simp_all add: s2 a1 a2)
qed

lemma send_email_alerts:
  "alert_reasons (trace (snd (send_email cfg w subject content st))) = alert_reasons (trace st)"
proof (cases "set_header subject = None \<and> set_header (smtp_from cfg) = None \<and>
    set_header (smtp_to cfg) = None")
  case False
  then show ?thesis
    by (auto simp: send_email_def split: option.splits)
next
  case True
  let ?message = "\<lparr>mail_subject = subject, mail_from = smtp_from cfg,
                     mail_to = smtp_to cfg, mail_content = content\<rparr>"
  let ?st1 = "emit (Smtp_connect (smtp_host cfg) (smtp_port cfg)) st"
  show ?thesis
  proof (cases "smtp_connect w (trace st) (smtp_host cfg) (smtp_port cfg)")
    case (Some e)
    with True show ?thesis by (simp add: send_email_def Let_def)
  next
    case None
    obtain raised st2 where sess: "smtp_session cfg w ?message ?st1 = (raised, st2)"
      by (cases "smtp_session cfg w ?message ?st1")
    then have "alert_reasons (trace st2) = alert_reasons (trace ?st1)"
      using smtp_session_alerts [of cfg w ?message ?st1] by simp
    then have "alert_reasons (trace (emit Smtp_quit st2)) = alert_reasons (trace st)"
      by simp
    with True None sess show ?thesis
      by (simp add: send_email_def Let_def split: option.splits)
  qed
qed

lemma smtp_configured_alerts:
  "alert_reasons (trace (snd (smtp_configured cfg st))) = alert_reasons (trace st)"
  by (simp add: smtp_configured_def)

lemma alert_alerts:
  "alert_reasons (trace (snd (alert cfg w reason d t st))) = alert_reasons (trace st) @ [reason]"
proof -
  let ?st1 = "log_warning ''LangSmith alert: %s'' [reason] st"
  have l: "alert_reasons (trace ?st1) = alert_reasons (trace st) @ [reason]"
    by simp
  consider (webhook) "notify_mode cfg = ''webhook''"
    | (smtp) "notify_mode cfg \<noteq> ''webhook''" "notify_mode cfg = ''smtp''"
    | (log) "notify_mode cfg \<noteq> ''webhook''" "notify_mode cfg \<noteq> ''smtp''"
    by blast
  then show ?thesis
  proof cases
    case webhook
    then show ?thesis
      by (simp add: alert_def Let_def send_webhook_alerts)
  next
    case smtp
    obtain ok st2 where c: "smtp_configured cfg ?st1 = (ok, st2)"
      by (cases "smtp_configured cfg ?st1")
    then have "alert_reasons (trace st2) = alert_reasons (trace ?st1)"
      using smtp_configured_alerts [of cfg ?st1] by simp
    with smtp c l show ?thesis
      by (cases ok) (simp_all add: alert_def Let_def send_email_alerts)
  next
    case log
    then show ?thesis by (simp add: alert_def Let_def)
  qed
qed

subsection \<open>The run timer\<close>

lemma pow2_pos: "0 < pow2 e"
  by (simp add: pow2_def)

lemma round_double_nonneg: "0 \<le> x \<Longrightarrow> float_ge (round_double x) (Float 0)"
proof -
  assume x: "0 \<le> x"
  show ?thesis
  proof (cases "x = 0")
    case True
    then show ?thesis by (simp add: round_double_def)
  next
    case False
    define e where "e = max (float_exponent \<bar>x\<bar>) (- 1022)"
    define q where "q = pow2 (e - 52)"
    define k where "k = round_half_even (\<bar>x\<bar> / q)"
    have q: "0 < q" by (simp add: q_def pow2_pos)
    then have "0 \<le> \<bar>x\<bar> / q" by simp
    then have k: "0 \<le> k" unfolding k_def by (rule round_half_even_nonneg)
    from x False have pos: "\<not> x < 0" by simp
    have "round_double x =
        (if 1023 < e \<or> (e = 1023 \<and> 2 ^ 53 \<le> k) then PosInf
         else if k = 0 then Float 0 else Float (of_int k * q))"
      unfolding round_double_def Let_def q_def k_def e_def
      by (simp only: False pos if_False)
    moreover have "0 \<le> of_int k * q" using k q by simp
    ultimately show ?thesis by simp
  qed
qed

lemma float_sub_nonneg: "b \<le> a \<Longrightarrow> float_ge (float_sub a b) (Float 0)"
  by (simp add: float_sub_def round_double_nonneg)

lemma float_sub_same: "float_sub a a = Float 0"
  by (simp add: float_sub_def round_double_def)

lemma float_sub_5_2: "float_sub (5 / 2) 0 = Float (5 / 2)"
  by code_simp

lemma float_sub_6: "float_sub 6 0 = Float 6"
  by code_simp

lemma float_sub_10: "float_sub 10 0 = Float 10"
  by code_simp

lemma float_sub_rounds_up: "float_sub 1 two_pow_minus_60 = Float 1"
  by code_simp

lemma float_sub_rounds_to_5: "float_sub float_5_1 float_0_1 = Float 5"
  by code_simp

lemma float_sub_exact: "float_sub float_0_3 float_0_1 = Float (7205759403792793 / 2 ^ 55)"
  by code_simp

lemma float_sub_tie_down: "float_sub first_above_1 half_spacing = Float 1"
  by code_simp

lemma float_sub_tie_up: "float_sub second_above_1 half_spacing = Float second_above_1"
  by code_simp

lemma float_readings_ordered: "two_pow_minus_60 \<le> 1 \<and> float_0_1 \<le> float_5_1"
  by (simp add: two_pow_minus_60_def float_0_1_def float_5_1_def)

lemma exact_difference_below_5: "float_5_1 - float_0_1 < 5"
  by (simp add: float_0_1_def float_5_1_def)

lemma pop_duration_eq:
  "pop_duration now key st =
     (Inr (map_option (float_sub now) (start_times st key)),
      st\<lparr>start_times := (start_times st)(key := None)\<rparr>)"
proof (cases "start_times st key")
  case None
  then have "(start_times st)(key := None) = start_times st" by auto
  with None show ?thesis by (simp add: pop_duration_def)
next
  case (Some started)
  then show ?thesis by (simp add: pop_duration_def dict_pop_def)
qed

lemma unchanged_timers:
  "start_times st key = None \<Longrightarrow> st\<lparr>start_times := (start_times st)(key := None)\<rparr> = st"
proof -
  assume "start_times st key = None"
  then have "(start_times st)(key := None) = start_times st" by auto
  then show ?thesis by simp
qed

text \<open>
  Claim C4. \<open>_pop_duration\<close> never raises. When the map holds a start for the run
  identifier, it returns the float difference of the reading of the clock and that start
  and removes the entry, leaving the other entries as they are; the clock is monotonic,
  so the reading is not before the start, and the difference, rounded as the float
  subtraction rounds it, is not negative; a second call for the identifier returns none.
  When the map holds no entry it returns none and changes nothing. In particular the
  closing callback of a run whose start \<open>on_llm_start\<close> recorded gets the time elapsed
  since, and the map is as if the run had never been there.
\<close>

theorem pop_duration_takes_elapsed:
  "(\<exists>d. fst (pop_duration now run_id st) = Inr d) \<and>
   (start_times st run_id = Some started \<longrightarrow>
      pop_duration now run_id st =
        (Inr (Some (float_sub now started)),
         st\<lparr>start_times := (start_times st)(run_id := None)\<rparr>) \<and>
      start_times (snd (pop_duration now run_id st)) run_id = None \<and>
      (started \<le> now \<longrightarrow> float_ge (float_sub now started) (Float 0)) \<and>
      pop_duration later run_id (snd (pop_duration now run_id st)) =
        (Inr None, snd (pop_duration now run_id st))) \<and>
   (start_times st run_id = None \<longrightarrow> pop_duration now run_id st = (Inr None, st)) \<and>
   (id_truthy rid \<and> started \<le> now \<longrightarrow>
      pop_duration now (run_key (Some rid)) (snd (on_llm_start started (Some rid) st)) =
        (Inr (Some (float_sub now started)),
         st\<lparr>start_times := (start_times st)(id_str rid := None)\<rparr>) \<and>
      float_ge (float_sub now started) (Float 0))"
  by (auto simp: pop_duration_def dict_pop_def on_llm_start_def run_key_def float_sub_nonneg
      split: option.splits)

theorem pop_duration_takes_elapsed_witness:
  "start_times \<lparr>start_times = [''run-1'' \<mapsto> 0], trace = []\<rparr> ''run-1'' = Some 0 \<and>
   (0::real) \<le> 5 / 2 \<and>
   pop_duration (5 / 2) ''run-1'' \<lparr>start_times = [''run-1'' \<mapsto> 0], trace = []\<rparr> =
     (Inr (Some (Float (5 / 2))), \<lparr>start_times = Map.empty, trace = []\<rparr>) \<and>
   float_ge (Float (5 / 2)) (Float 0) \<and>
   pop_duration 9 ''run-1''
     (snd (pop_duration (5 / 2) ''run-1'' \<lparr>start_times = [''run-1'' \<mapsto> 0], trace = []\<rparr>)) =
     (Inr None, \<lparr>start_times = Map.empty, trace = []\<rparr>) \<and>
   start_times \<lparr>start_times = Map.empty, trace = []\<rparr> ''run-2'' = None \<and>
   pop_duration 3 ''run-2'' \<lparr>start_times = Map.empty, trace = []\<rparr> =
     (Inr None, \<lparr>start_times = Map.empty, trace = []\<rparr>) \<and>
   id_truthy (IdUuid ''run-1'') \<and>
   pop_duration (5 / 2) (run_key (Some (IdUuid ''run-1'')))
     (snd (on_llm_start 0 (Some (IdUuid ''run-1'')) \<lparr>start_times = Map.empty, trace = []\<rparr>)) =
     (Inr (Some (Float (5 / 2))), \<lparr>start_times = Map.empty, trace = []\<rparr>) \<and>
   two_pow_minus_60 \<le> 1 \<and>
   pop_duration 1 ''run-1'' \<lparr>start_times = [''run-1'' \<mapsto> two_pow_minus_60], trace = []\<rparr> =
     (Inr (Some (Float 1)), \<lparr>start_times = Map.empty, trace = []\<rparr>) \<and>
   float_0_1 \<le> float_5_1 \<and> float_5_1 - float_0_1 < 5 \<and>
   pop_duration float_5_1 ''run-1'' \<lparr>start_times = [''run-1'' \<mapsto> float_0_1], trace = []\<rparr> =
     (Inr (Some (Float 5)), \<lparr>start_times = Map.empty, trace = []\<rparr>) \<and>
   pop_duration float_0_3 ''run-1'' \<lparr>start_times = [''run-1'' \<mapsto> float_0_1], trace = []\<rparr> =
     (Inr (Some (Float (7205759403792793 / 2 ^ 55))), \<lparr>start_times = Map.empty, trace = []\<rparr>) \<and>
   pop_duration first_above_1 ''run-1''
       \<lparr>start_times = [''run-1'' \<mapsto> half_spacing], trace = []\<rparr> =
     (Inr (Some (Float 1)), \<lparr>start_times = Map.empty, trace = []\<rparr>) \<and>
   pop_duration second_above_1 ''run-1''
       \<lparr>start_times = [''run-1'' \<mapsto> half_spacing], trace = []\<rparr> =
     (Inr (Some (Float second_above_1)), \<lparr>start_times = Map.empty, trace = []\<rparr>)"
  using pop_duration_takes_elapsed
    [of "5 / 2" "''run-1''" "\<lparr>start_times = [''run-1'' \<mapsto> 0], trace = []\<rparr>" 0 9
       "IdUuid ''run-1''"]
    pop_duration_takes_elapsed
    [of 3 "''run-2''" "\<lparr>start_times = Map.empty, trace = []\<rparr>" 0 9 "IdUuid ''run-1''"]
    pop_duration_takes_elapsed
    [of "5 / 2" "''run-1''" "\<lparr>start_times = Map.empty, trace = []\<rparr>" 0 9 "IdUuid ''run-1''"]
    pop_duration_takes_elapsed
    [of 1 "''run-1''" "\<lparr>start_times = [''run-1'' \<mapsto> two_pow_minus_60], trace = []\<rparr>"
       two_pow_minus_60 9 "IdUuid ''run-1''"]
    pop_duration_takes_elapsed
    [of float_5_1 "''run-1''" "\<lparr>start_times = [''run-1'' \<mapsto> float_0_1], trace = []\<rparr>"
       float_0_1 9 "IdUuid ''run-1''"]
    float_readings_ordered exact_difference_below_5
  by (simp add: pop_duration_def dict_pop_def on_llm_start_def run_key_def float_sub_5_2
      float_sub_rounds_up float_sub_rounds_to_5 float_sub_exact float_sub_tie_down
      float_sub_tie_up)

subsection \<open>The lifecycle callbacks\<close>

lemma on_llm_error_eq:
  "on_llm_error cfg w now error kw st =
     alert cfg w (''LLM error: '' @ error)
       (map_option (float_sub now) (start_times st (run_key kw))) None
       (st\<lparr>start_times := (start_times st)(run_key kw := None)\<rparr>)"
  by (simp add: on_llm_error_def Let_def pop_duration_eq)

lemma on_chain_error_eq:
  "on_chain_error cfg w now error kw st =
     alert cfg w (''Chain error: '' @ error)
       (map_option (float_sub now) (start_times st (run_key kw))) None
       (st\<lparr>start_times := (start_times st)(run_key kw := None)\<rparr>)"
  by (simp add: on_chain_error_def Let_def pop_duration_eq)

lemma started_state:
  "id_truthy rid \<Longrightarrow>
   snd (on_llm_start started (Some rid) st) =
     st\<lparr>start_times := (start_times st)(id_str rid \<mapsto> started)\<rparr>"
  by (simp add: on_llm_start_def)

text \<open>
  Claim C3, as the code has it. \<open>on_llm_error\<close> and \<open>on_chain_error\<close> are one call of
  \<open>_alert\<close>, whatever the thresholds: the reason is \<open>"LLM error: "\<close> (or
  \<open>"Chain error: "\<close>) followed by the error's text and the token count is absent, and
  exactly one alert is added to the trace. The duration is present exactly when the map
  holds an entry under the key of the event, \<open>str(kwargs.get("run_id", ""))\<close>: the
  empty string for a missing argument, \<open>"None"\<close> for \<open>None\<close>, the text of a string or of
  a UUID. With no entry under that key the body of the alert is the reason line alone.
  So the error event of a run gets the time elapsed since the start recorded under the
  same identifier, and none from a start recorded under another UUID.
\<close>

theorem error_events_alert_once:
  "on_llm_error cfg w now error kw st =
     alert cfg w (''LLM error: '' @ error)
       (map_option (float_sub now) (start_times st (run_key kw))) None
       (st\<lparr>start_times := (start_times st)(run_key kw := None)\<rparr>) \<and>
   on_chain_error cfg w now error kw st =
     alert cfg w (''Chain error: '' @ error)
       (map_option (float_sub now) (start_times st (run_key kw))) None
       (st\<lparr>start_times := (start_times st)(run_key kw := None)\<rparr>) \<and>
   alert_reasons (trace (snd (on_llm_error cfg w now error kw st))) =
     alert_reasons (trace st) @ [''LLM error: '' @ error] \<and>
   alert_reasons (trace (snd (on_chain_error cfg w now error kw st))) =
     alert_reasons (trace st) @ [''Chain error: '' @ error] \<and>
   (start_times st (run_key kw) = None \<longrightarrow>
      on_llm_error cfg w now error kw st = alert cfg w (''LLM error: '' @ error) None None st \<and>
      on_chain_error cfg w now error kw st = alert cfg w (''Chain error: '' @ error) None None st \<and>
      body (build_payload (''LLM error: '' @ error) None None) = ''Reason: LLM error: '' @ error \<and>
      body (build_payload (''Chain error: '' @ error) None None) =
        ''Reason: Chain error: '' @ error) \<and>
   run_key None = [] \<and> run_key (Some IdNone) = ''None'' \<and>
   run_key (Some (IdStr s)) = s \<and> run_key (Some (IdUuid u)) = u \<and>
   (id_truthy rid \<longrightarrow>
      on_llm_error cfg w now error (Some rid) (snd (on_llm_start started (Some rid) st)) =
        alert cfg w (''LLM error: '' @ error) (Some (float_sub now started)) None
          (st\<lparr>start_times := (start_times st)(id_str rid := None)\<rparr>)) \<and>
   (u \<noteq> v \<and> start_times st v = None \<longrightarrow>
      on_llm_error cfg w now error (Some (IdUuid v))
          (snd (on_llm_start started (Some (IdUuid u)) st)) =
        alert cfg w (''LLM error: '' @ error) None None
          (snd (on_llm_start started (Some (IdUuid u)) st)))"
proof -
  have a1: "alert_reasons (trace (snd (on_llm_error cfg w now error kw st))) =
     alert_reasons (trace st) @ [''LLM error: '' @ error]"
    unfolding on_llm_error_eq by (simp add: alert_alerts)
  have a2: "alert_reasons (trace (snd (on_chain_error cfg w now error kw st))) =
     alert_reasons (trace st) @ [''Chain error: '' @ error]"
    unfolding on_chain_error_eq by (simp add: alert_alerts)
  have b: "body (build_payload reason None None) = ''Reason: '' @ reason" for reason
    by (simp add: build_payload_def Let_def)
  have none: "start_times st (run_key kw) = None \<longrightarrow>
      on_llm_error cfg w now error kw st = alert cfg w (''LLM error: '' @ error) None None st \<and>
      on_chain_error cfg w now error kw st = alert cfg w (''Chain error: '' @ error) None None st \<and>
      body (build_payload (''LLM error: '' @ error) None None) = ''Reason: LLM error: '' @ error \<and>
      body (build_payload (''Chain error: '' @ error) None None) =
        ''Reason: Chain error: '' @ error"
    using b [of "''LLM error: '' @ error"] b [of "''Chain error: '' @ error"]
    by (simp add: on_llm_error_eq on_chain_error_eq unchanged_timers)
  have keys: "run_key None = []" "run_key (Some IdNone) = ''None''"
    "run_key (Some (IdStr s)) = s" "run_key (Some (IdUuid u)) = u"
    by (simp_all add: run_key_def)
  have same: "id_truthy rid \<longrightarrow>
      on_llm_error cfg w now error (Some rid) (snd (on_llm_start started (Some rid) st)) =
        alert cfg w (''LLM error: '' @ error) (Some (float_sub now started)) None
          (st\<lparr>start_times := (start_times st)(id_str rid := None)\<rparr>)"
    by (simp add: on_llm_error_eq started_state run_key_def)
  have other: "u \<noteq> v \<and> start_times st v = None \<longrightarrow>
      on_llm_error cfg w now error (Some (IdUuid v))
          (snd (on_llm_start started (Some (IdUuid u)) st)) =
        alert cfg w (''LLM error: '' @ error) None None
          (snd (on_llm_start started (Some (IdUuid u)) st))"
  proof
    assume h: "u \<noteq> v \<and> start_times st v = None"
    let ?st1 = "snd (on_llm_start started (Some (IdUuid u)) st)"
    from h have "v \<noteq> u" and "start_times st v = None" by auto
    then have "start_times ?st1 (run_key (Some (IdUuid v))) = None"
      by (simp add: on_llm_start_def run_key_def)
    then show "on_llm_error cfg w now error (Some (IdUuid v)) ?st1 =
        alert cfg w (''LLM error: '' @ error) None None ?st1"
      by (simp add: on_llm_error_eq unchanged_timers)
  qed
  show ?thesis
    by (intro conjI) (rule on_llm_error_eq on_chain_error_eq a1 a2 none keys same other)+
qed

theorem error_events_alert_once_witness:
  "start_times new_handler (run_key (Some (IdUuid ''run-1''))) = None \<and>
   on_llm_error webhook_config world_up 7 ''boom'' (Some (IdUuid ''run-1'')) new_handler =
     (None,
      \<lparr>start_times = Map.empty,
       trace =
         [Log_warning ''LangSmith alert: %s'' [''LLM error: boom''],
          Http_post ''http://x''
            [(''title'', ''LangSmith alert: LLM error: boom''),
             (''body'', ''Reason: LLM error: boom'')] (Float 5)]\<rparr>) \<and>
   alert_reasons (trace (snd (on_chain_error webhook_config world_up 7 ''boom''
       (Some (IdUuid ''run-1'')) new_handler))) = [''Chain error: boom''] \<and>
   id_truthy (IdUuid ''run-1'') \<and>
   on_llm_error webhook_config world_up 10 ''boom'' (Some (IdUuid ''run-1''))
       (snd (on_llm_start 0 (Some (IdUuid ''run-1'')) new_handler)) =
     (None,
      \<lparr>start_times = Map.empty,
       trace =
         [Log_warning ''LangSmith alert: %s'' [''LLM error: boom''],
          Http_post ''http://x''
            [(''title'', ''LangSmith alert: LLM error: boom''),
             (''body'', ''Reason: LLM error: boom'' @ [CHR 0x0A] @ ''Latency: 10.00s'')]
            (Float 5)]\<rparr>) \<and>
   ''run-1'' \<noteq> ''run-2'' \<and> start_times new_handler ''run-2'' = None \<and>
   on_llm_error webhook_config world_up 10 ''boom'' (Some (IdUuid ''run-2''))
       (snd (on_llm_start 0 (Some (IdUuid ''run-1'')) new_handler)) =
     (None,
      \<lparr>start_times = [''run-1'' \<mapsto> 0],
       trace =
         [Log_warning ''LangSmith alert: %s'' [''LLM error: boom''],
          Http_post ''http://x''
            [(''title'', ''LangSmith alert: LLM error: boom''),
             (''body'', ''Reason: LLM error: boom'')] (Float 5)]\<rparr>)"
  using error_events_alert_once
    [of webhook_config world_up 7 "''boom''" "Some (IdUuid ''run-1'')" new_handler "''s''"
       "''run-1''" "IdUuid ''run-1''" 0 "''run-2''"]
    error_events_alert_once
    [of webhook_config world_up 10 "''boom''" "Some (IdUuid ''run-1'')" new_handler "''s''"
       "''run-1''" "IdUuid ''run-1''" 0 "''run-2''"]
  by (simp add: eval_examples eval_handler eval_text float_sub_10)

text \<open>
  In terms of runs the claim fails: \<open>str(None)\<close> is \<open>"None"\<close>, the key of a run
  started with the string \<open>"None"\<close> as its identifier. The start event with
  \<open>run_id=None\<close> records nothing, and the error event with \<open>run_id=None\<close>, for a run
  with no recorded start, takes the other run's entry: the body of its alert has a
  latency line.
\<close>

theorem error_event_collision_counterexample:
  "\<not> id_truthy IdNone \<and>
   on_llm_start 1 (Some IdNone) (snd (on_llm_start 0 (Some (IdStr ''None'')) new_handler)) =
     (None, snd (on_llm_start 0 (Some (IdStr ''None'')) new_handler)) \<and>
   on_llm_error webhook_config world_up 10 ''boom'' (Some IdNone)
     (snd (on_llm_start 1 (Some IdNone) (snd (on_llm_start 0 (Some (IdStr ''None'')) new_handler)))) =
     (None,
      \<lparr>start_times = Map.empty,
       trace =
         [Log_warning ''LangSmith alert: %s'' [''LLM error: boom''],
          Http_post ''http://x''
            [(''title'', ''LangSmith alert: LLM error: boom''),
             (''body'', ''Reason: LLM error: boom'' @ [CHR 0x0A] @ ''Latency: 10.00s'')]
            (Float 5)]\<rparr>)"
  by (simp add: eval_examples eval_handler eval_text float_sub_10)

lemma on_llm_end_eq:
  "on_llm_end cfg w now response kw st =
     (case extract_total_tokens response of
        Inl e \<Rightarrow> (Some e, st\<lparr>start_times := (start_times st)(run_key kw := None)\<rparr>)
      | Inr tok \<Rightarrow>
          (case (if (\<exists>started. start_times st (run_key kw) = Some started \<and>
                        float_ge (float_sub now started) (latency_seconds cfg))
                 then alert cfg w ''Latency threshold exceeded''
                        (map_option (float_sub now) (start_times st (run_key kw))) tok
                        (st\<lparr>start_times := (start_times st)(run_key kw := None)\<rparr>)
                 else (None, st\<lparr>start_times := (start_times st)(run_key kw := None)\<rparr>)) of
             (Some e, st2) \<Rightarrow> (Some e, st2)
           | (None, st2) \<Rightarrow>
               (if (\<exists>t. tok = Some t \<and> token_threshold cfg \<le> int_val t)
                then alert cfg w ''Token threshold exceeded''
                       (map_option (float_sub now) (start_times st (run_key kw))) tok st2
                else (None, st2))))"
proof -
  have c1: "(case map_option (float_sub now) (start_times st (run_key kw)) of
              None \<Rightarrow> False | Some d \<Rightarrow> float_ge d (latency_seconds cfg)) =
            (\<exists>started. start_times st (run_key kw) = Some started \<and>
               float_ge (float_sub now started) (latency_seconds cfg))"
    by (cases "start_times st (run_key kw)") simp_all
  have c2: "(case tok of None \<Rightarrow> False | Some t \<Rightarrow> token_threshold cfg \<le> int_val t) =
            (\<exists>t. tok = Some t \<and> token_threshold cfg \<le> int_val t)" for tok
    by (cases tok) simp_all
  show ?thesis
    unfolding on_llm_end_def Let_def pop_duration_eq prod.case sum.case c1 c2 ..
qed

text \<open>
  Claim C2 does not hold of the code. In log mode a run over both thresholds gets the
  latency alert and then the token alert, as the claim says. In smtp mode with the mail
  server down the same run gets the latency alert only: \<open>_send_email\<close> has no \<open>try\<close>,
  and the exception of the first dispatch leaves \<open>on_llm_end\<close> before the token check.
\<close>

theorem smtp_failure_loses_token_alert:
  "extract_total_tokens (usage_response 60) = Inr (Some (IntV 60)) \<and>
   token_threshold smtp_config \<le> int_val (IntV 60) \<and>
   start_times (snd (on_llm_start 0 (Some (IdUuid ''run-1'')) new_handler))
     (run_key (Some (IdUuid ''run-1''))) = Some 0 \<and>
   float_ge (float_sub 6 0) (latency_seconds smtp_config) \<and>
   on_llm_end from_env_defaults world_up 6 (usage_response 60) (Some (IdUuid ''run-1''))
     (snd (on_llm_start 0 (Some (IdUuid ''run-1'')) new_handler)) =
     (None,
      \<lparr>start_times = Map.empty,
       trace = [Log_warning ''LangSmith alert: %s'' [''Latency threshold exceeded''],
                Log_warning ''LangSmith alert: %s'' [''Token threshold exceeded'']]\<rparr>) \<and>
   on_llm_end smtp_config world_smtp_down 6 (usage_response 60) (Some (IdUuid ''run-1''))
     (snd (on_llm_start 0 (Some (IdUuid ''run-1'')) new_handler)) =
     (Some (SMTPException ''SMTPConnectError''),
      \<lparr>start_times = Map.empty,
       trace = [Log_warning ''LangSmith alert: %s'' [''Latency threshold exceeded''],
                Smtp_connect ''mail.example.org'' 587]\<rparr>)"
  by (simp add: eval_examples eval_handler eval_text extract_total_tokens_def py_or_def
      dict_get_def float_sub_6 float_sub_10)

text \<open>
  Claim C1 does not hold of the code. \<open>_send_email\<close> has no \<open>try\<close>, unlike
  \<open>_send_webhook\<close>: in smtp mode with the mail server down, the exception of the
  connection leaves \<open>on_llm_error\<close>, \<open>on_chain_error\<close> and \<open>on_llm_end\<close>. The same
  events in webhook mode with a failing endpoint return.
\<close>

theorem smtp_failure_escapes_handler:
  "fst (on_llm_error smtp_config world_smtp_down 0 ''boom'' None new_handler) =
     Some (SMTPException ''SMTPConnectError'') \<and>
   fst (on_chain_error smtp_config world_smtp_down 0 ''boom'' None new_handler) =
     Some (SMTPException ''SMTPConnectError'') \<and>
   fst (on_llm_end smtp_config world_smtp_down 6 (usage_response 10) (Some (IdUuid ''run-1''))
     (snd (on_llm_start 0 (Some (IdUuid ''run-1'')) new_handler))) =
     Some (SMTPException ''SMTPConnectError'') \<and>
   fst (on_llm_error webhook_config world_http_500 0 ''boom'' None new_handler) = None"
  by (simp add: eval_examples eval_handler eval_text extract_total_tokens_def py_or_def
      dict_get_def float_sub_6 float_sub_10)

text \<open>
  Claim C10, as the code has it. A start event whose \<open>run_id\<close> is missing, \<open>None\<close> or
  otherwise falsy changes nothing. When the map holds no entry under the key the closing
  callbacks compute for that argument (\<open>str(kwargs.get("run_id", ""))\<close>), the closing
  event that follows gets no duration: a success event adds no latency alert (at most the
  token alert), and an error event alerts without a duration.
\<close>

theorem start_without_run_id_records_nothing:
  assumes "\<not> id_truthy (case kw of None \<Rightarrow> IdNone | Some v \<Rightarrow> v)"
  shows "on_llm_start now kw st = (None, st) \<and>
         (start_times st (run_key kw) = None \<longrightarrow>
            pop_duration later (run_key kw) (snd (on_llm_start now kw st)) = (Inr None, st) \<and>
            (\<exists>added.
               alert_reasons (trace (snd (on_llm_end cfg w later response kw
                 (snd (on_llm_start now kw st))))) = alert_reasons (trace st) @ added \<and>
               set added \<subseteq> {''Token threshold exceeded''}) \<and>
            on_llm_error cfg w later error kw (snd (on_llm_start now kw st)) =
              alert cfg w (''LLM error: '' @ error) None None st \<and>
            on_chain_error cfg w later error kw (snd (on_llm_start now kw st)) =
              alert cfg w (''Chain error: '' @ error) None None st)"
proof -
  from assms have s: "on_llm_start now kw st = (None, st)"
    by (simp add: on_llm_start_def Let_def)
  have rest: "pop_duration later (run_key kw) st = (Inr None, st) \<and>
            (\<exists>added.
               alert_reasons (trace (snd (on_llm_end cfg w later response kw st))) =
                 alert_reasons (trace st) @ added \<and>
               set added \<subseteq> {''Token threshold exceeded''}) \<and>
            on_llm_error cfg w later error kw st =
              alert cfg w (''LLM error: '' @ error) None None st \<and>
            on_chain_error cfg w later error kw st =
              alert cfg w (''Chain error: '' @ error) None None st"
    if none: "start_times st (run_key kw) = None"
  proof -
    note u = unchanged_timers [OF none]
    have p: "pop_duration later (run_key kw) st = (Inr None, st)"
      by (simp add: pop_duration_eq none u)
    have "\<exists>added.
        alert_reasons (trace (snd (on_llm_end cfg w later response kw st))) =
          alert_reasons (trace st) @ added \<and>
        set added \<subseteq> {''Token threshold exceeded''}"
    proof (cases "extract_total_tokens response")
      case (Inl e)
      then have "alert_reasons (trace (snd (on_llm_end cfg w later response kw st))) =
          alert_reasons (trace st) @ []"
        by (simp add: on_llm_end_eq)
      then show ?thesis by (intro exI [of _ "[]"]) simp
    next
      case (Inr tok)
      show ?thesis
      proof (cases "\<exists>t. tok = Some t \<and> token_threshold cfg \<le> int_val t")
        case True
        with Inr have "alert_reasons (trace (snd (on_llm_end cfg w later response kw st))) =
            alert_reasons (trace st) @ [''Token threshold exceeded'']"
          by (simp add: on_llm_end_eq none u alert_alerts)
        then show ?thesis by (intro exI [of _ "[''Token threshold exceeded'']"]) simp
      next
        case False
        with Inr have "alert_reasons (trace (snd (on_llm_end cfg w later response kw st))) =
            alert_reasons (trace st) @ []"
          by (auto simp: on_llm_end_eq none u)
        then show ?thesis by (intro exI [of _ "[]"]) simp
      qed
    qed
    moreover have "on_llm_error cfg w later error kw st =
        alert cfg w (''LLM error: '' @ error) None None st"
      by (simp add: on_llm_error_def Let_def p)
    moreover have "on_chain_error cfg w later error kw st =
        alert cfg w (''Chain error: '' @ error) None None st"
      by (simp add: on_chain_error_def Let_def p)
    ultimately show ?thesis using p by blast
  qed
  show ?thesis
    using s rest by simp
qed

theorem start_without_run_id_records_nothing_witness:
  "\<not> id_truthy (case None of None \<Rightarrow> IdNone | Some v \<Rightarrow> v) \<and>
   on_llm_start 0 None new_handler = (None, new_handler) \<and>
   start_times new_handler (run_key None) = None \<and>
   pop_duration 9 (run_key None) (snd (on_llm_start 0 None new_handler)) = (Inr None, new_handler) \<and>
   on_llm_end from_env_defaults world_up 9 (usage_response 60) None
     (snd (on_llm_start 0 None new_handler)) =
     (None,
      \<lparr>start_times = Map.empty,
       trace = [Log_warning ''LangSmith alert: %s'' [''Token threshold exceeded'']]\<rparr>) \<and>
   \<not> id_truthy (case Some (IdInt 0) of None \<Rightarrow> IdNone | Some v \<Rightarrow> v) \<and>
   on_llm_start 0 (Some (IdInt 0)) new_handler = (None, new_handler)"
  using start_without_run_id_records_nothing
    [of None 0 new_handler 9 from_env_defaults world_up "usage_response 60" "''boom''"]
    start_without_run_id_records_nothing
    [of "Some (IdInt 0)" 0 new_handler 9 from_env_defaults world_up "usage_response 60" "''boom''"]
  by (simp add: eval_examples eval_handler eval_text extract_total_tokens_def py_or_def
      dict_get_def float_sub_6 float_sub_10)

text \<open>
  Without the condition on the map the claim fails: \<open>str(None)\<close> is \<open>"None"\<close>, the key
  of a run started with the string \<open>"None"\<close> as its identifier. A later start with
  \<open>run_id=None\<close> records nothing, and the success event with \<open>run_id=None\<close> takes the
  other run's entry and raises the latency alert.
\<close>

theorem colliding_key_counterexample:
  "\<not> id_truthy IdNone \<and>
   on_llm_start 1 (Some IdNone) (snd (on_llm_start 0 (Some (IdStr ''None'')) new_handler)) =
     (None, snd (on_llm_start 0 (Some (IdStr ''None'')) new_handler)) \<and>
   pop_duration 10 (run_key (Some IdNone))
     (snd (on_llm_start 1 (Some IdNone) (snd (on_llm_start 0 (Some (IdStr ''None'')) new_handler)))) =
     (Inr (Some (Float 10)), new_handler) \<and>
   on_llm_end from_env_defaults world_up 10 (PObj []) (Some IdNone)
     (snd (on_llm_start 1 (Some IdNone) (snd (on_llm_start 0 (Some (IdStr ''None'')) new_handler)))) =
     (None,
      \<lparr>start_times = Map.empty,
       trace = [Log_warning ''LangSmith alert: %s'' [''Latency threshold exceeded'']]\<rparr>)"
  by (simp add: eval_examples eval_handler eval_text extract_total_tokens_def py_or_def
      dict_get_def float_sub_6 float_sub_10)

end
